theory Spec2Isabelle
  imports Complex_Main "HOL-Library.Char_ord" "HOL-Library.List_Lexorder"
begin

section \<open>Conventions of the embedding\<close>

text \<open>
  This theory embeds the analytics and calendar-reconciliation functions of
  \<^verbatim>\<open>str_logic.py\<close>.

  \<^item> A Python \<^verbatim>\<open>str\<close> is a \<open>string\<close>, a list of 8-bit characters holding the UTF-8
    bytes of the text. The string functions below (\<open>py_lower\<close>, \<open>py_strip\<close>,
    \<open>splitlines\<close>) act on ASCII characters, as Python does on ASCII text; case folding
    and white space beyond ASCII are not modelled.
  \<^item> A Python \<^verbatim>\<open>float\<close> amount is a \<open>rat\<close>: the arithmetic is exact, and
    \<^verbatim>\<open>round(x, n)\<close> rounds the exact value half to even. The representation error of
    binary floating point is outside the model.
  \<^item> A \<^verbatim>\<open>datetime.date\<close> is its proleptic Gregorian ordinal, an \<open>int\<close>
    (\<^verbatim>\<open>date(1, 1, 1)\<close> is 1), so that the difference of two dates is the
    \<^verbatim>\<open>.days\<close> of their \<^verbatim>\<open>timedelta\<close>. The upper bound of Python's date type
    (year 9999) is not modelled.
  \<^item> A record dictionary (\<^verbatim>\<open>booking\<close>, \<^verbatim>\<open>property\<close>, ...) is a \<open>record\<close>
    with the keys the functions read; a key read with \<^verbatim>\<open>.get(key, default)\<close> holds
    the default when the dictionary lacks it.
  \<^item> \<^verbatim>\<open>date.today()\<close> and \<^verbatim>\<open>generate_id()\<close> read the clock: the model takes
    the day and the identifiers as arguments.
\<close>

section \<open>Strings\<close>

definition is_digit :: "char \<Rightarrow> bool" where
  "is_digit c = (CHR ''0'' \<le> c \<and> c \<le> CHR ''9'')"

definition digit_val :: "char \<Rightarrow> nat" where
  "digit_val c = of_char c - 48"

definition digit_char :: "nat \<Rightarrow> char" where
  "digit_char n = char_of (48 + n)"

text \<open>\<^verbatim>\<open>int(s)\<close> on a string of decimal digits.\<close>

definition int_of_digits :: "string \<Rightarrow> nat" where
  "int_of_digits s = foldl (\<lambda>acc c. 10 * acc + digit_val c) 0 s"

text \<open>\<^verbatim>\<open>str(n)\<close> for a natural number.\<close>

fun str_of_nat :: "nat \<Rightarrow> string" where
  "str_of_nat n =
     (if n < 10 then [digit_char n] else str_of_nat (n div 10) @ [digit_char (n mod 10)])"

declare str_of_nat.simps [simp del]

text \<open>\<^verbatim>\<open>"%0wd" % n\<close>: decimal digits, padded with zeros on the left to width \<open>w\<close>.\<close>

definition zero_pad :: "nat \<Rightarrow> nat \<Rightarrow> string" where
  "zero_pad w n = (let s = str_of_nat n in replicate (w - length s) (CHR ''0'') @ s)"

definition lower_char :: "char \<Rightarrow> char" where
  "lower_char c = (if CHR ''A'' \<le> c \<and> c \<le> CHR ''Z'' then char_of (of_char c + (32::nat)) else c)"

definition py_lower :: "string \<Rightarrow> string" where
  "py_lower s = map lower_char s"

text \<open>The ASCII characters that \<^verbatim>\<open>str.strip()\<close> removes.\<close>

definition is_space :: "char \<Rightarrow> bool" where
  "is_space c = (c = CHR '' '' \<or> (CHR 0x09 \<le> c \<and> c \<le> CHR 0x0D) \<or> (CHR 0x1C \<le> c \<and> c \<le> CHR 0x1F))"

definition py_lstrip :: "string \<Rightarrow> string" where
  "py_lstrip s = dropWhile is_space s"

definition py_rstrip :: "string \<Rightarrow> string" where
  "py_rstrip s = rev (dropWhile is_space (rev s))"

definition py_strip :: "string \<Rightarrow> string" where
  "py_strip s = py_rstrip (py_lstrip s)"

text \<open>\<^verbatim>\<open>s.rstrip("Z")\<close>.\<close>

definition rstrip_char :: "char \<Rightarrow> string \<Rightarrow> string" where
  "rstrip_char c s = rev (dropWhile (\<lambda>x. x = c) (rev s))"

fun startswith :: "string \<Rightarrow> string \<Rightarrow> bool" where
  "startswith s [] = True"
| "startswith [] (p # ps) = False"
| "startswith (c # cs) (p # ps) = (c = p \<and> startswith cs ps)"

text \<open>\<^verbatim>\<open>pat in s\<close>.\<close>

fun py_in :: "string \<Rightarrow> string \<Rightarrow> bool" where
  "py_in pat [] = (pat = [])"
| "py_in pat (c # cs) = (startswith (c # cs) pat \<or> py_in pat cs)"

text \<open>
  \<^verbatim>\<open>s.replace(pat, "")\<close> for a non-empty \<open>pat\<close>: occurrences are removed from left to
  right without overlap. The counter holds how many characters of the occurrence found are
  still to be skipped.
\<close>

fun remove_occ :: "string \<Rightarrow> nat \<Rightarrow> string \<Rightarrow> string" where
  "remove_occ pat k [] = []"
| "remove_occ pat k (c # cs) =
     (if 0 < k then remove_occ pat (k - 1) cs
      else if startswith (c # cs) pat then remove_occ pat (length pat - 1) cs
      else c # remove_occ pat 0 cs)"

definition py_remove :: "string \<Rightarrow> string \<Rightarrow> string" where
  "py_remove pat s = remove_occ pat 0 s"

text \<open>
  \<^verbatim>\<open>s.splitlines()\<close>: the text is cut at line feed, carriage return (a carriage return
  and the line feed after it are one boundary), vertical tab, form feed and the file, group
  and record separators; there is no empty last line. \<open>cur\<close> is the line being read,
  reversed.
\<close>

definition is_linebreak :: "char \<Rightarrow> bool" where
  "is_linebreak c = ((CHR 0x0A \<le> c \<and> c \<le> CHR 0x0D) \<or> (CHR 0x1C \<le> c \<and> c \<le> CHR 0x1E))"

fun splitlines_from :: "string \<Rightarrow> string \<Rightarrow> string list" where
  "splitlines_from cur [] = (if cur = [] then [] else [rev cur])"
| "splitlines_from cur [c] =
     (if is_linebreak c then [rev cur] else [rev (c # cur)])"
| "splitlines_from cur (c # d # cs) =
     (if c = CHR 0x0D \<and> d = CHR 0x0A then rev cur # splitlines_from [] cs
      else if is_linebreak c then rev cur # splitlines_from [] (d # cs)
      else splitlines_from (c # cur) (d # cs))"

definition splitlines :: "string \<Rightarrow> string list" where
  "splitlines s = splitlines_from [] s"

text \<open>\<^verbatim>\<open>s.split(sep)\<close> for a one-character separator.\<close>

fun split_char_from :: "char \<Rightarrow> string \<Rightarrow> string \<Rightarrow> string list" where
  "split_char_from sep cur [] = [rev cur]"
| "split_char_from sep cur (c # cs) =
     (if c = sep then rev cur # split_char_from sep [] cs else split_char_from sep (c # cur) cs)"

definition split_char :: "char \<Rightarrow> string \<Rightarrow> string list" where
  "split_char sep s = split_char_from sep [] s"

text \<open>
  \<^verbatim>\<open>s.partition(sep)\<close> for a one-character separator: the text before the first
  separator and the text after it (empty when there is none).
\<close>

definition partition_char :: "char \<Rightarrow> string \<Rightarrow> string \<times> string" where
  "partition_char sep s = (takeWhile (\<lambda>c. c \<noteq> sep) s, drop 1 (dropWhile (\<lambda>c. c \<noteq> sep) s))"

text \<open>
  \<^verbatim>\<open>s.split(pat, 1)\<close> when \<open>pat\<close> occurs in \<open>s\<close>: the text before the first
  occurrence and the text after it. \<open>cur\<close> is the text already passed, reversed.
\<close>

fun split_first_from :: "string \<Rightarrow> string \<Rightarrow> string \<Rightarrow> (string \<times> string) option" where
  "split_first_from pat cur [] = (if pat = [] then Some (rev cur, []) else None)"
| "split_first_from pat cur (c # cs) =
     (if startswith (c # cs) pat then Some (rev cur, drop (length pat) (c # cs))
      else split_first_from pat (c # cur) cs)"

definition split_first :: "string \<Rightarrow> string \<Rightarrow> (string \<times> string) option" where
  "split_first pat s = split_first_from pat [] s"

text \<open>\<^verbatim>\<open>re.findall(r"\d+", s)\<close>: the maximal runs of digits, from left to right.\<close>

fun digit_runs_from :: "string \<Rightarrow> string \<Rightarrow> string list" where
  "digit_runs_from cur [] = (if cur = [] then [] else [rev cur])"
| "digit_runs_from cur (c # cs) =
     (if is_digit c then digit_runs_from (c # cur) cs
      else if cur = [] then digit_runs_from [] cs
      else rev cur # digit_runs_from [] cs)"

definition digit_runs :: "string \<Rightarrow> string list" where
  "digit_runs s = digit_runs_from [] s"

section \<open>Amounts\<close>

text \<open>Rounding to the nearest integer, a tie going to the even neighbour.\<close>

definition round_half_even :: "rat \<Rightarrow> int" where
  "round_half_even x =
     (let f = \<lfloor>x\<rfloor>; d = x - of_int f
      in if d < 1 / 2 then f else if 1 / 2 < d then f + 1 else if even f then f else f + 1)"

text \<open>\<^verbatim>\<open>round(x, n)\<close>.\<close>

definition py_round :: "rat \<Rightarrow> nat \<Rightarrow> rat" where
  "py_round x n = of_int (round_half_even (x * 10 ^ n)) / 10 ^ n"

text \<open>
  \<^verbatim>\<open>calculate_payout(rate, nights, clean, pct=0.03)\<close> returns the pair of the net
  payout and the platform fee.
\<close>

definition default_pct :: rat where
  "default_pct = 3 / 100"

definition calculate_payout :: "rat \<Rightarrow> int \<Rightarrow> rat \<Rightarrow> rat \<Rightarrow> rat \<times> rat" where
  "calculate_payout rate nights clean pct =
     (let g = rate * of_int nights + clean;
          f = g * pct
      in (py_round (g - f) 2, py_round f 2))"

section \<open>Dates\<close>

text \<open>
  The calendar arithmetic of \<^verbatim>\<open>datetime\<close>: \<^verbatim>\<open>_is_leap\<close>,
  \<^verbatim>\<open>_days_before_year\<close>, \<^verbatim>\<open>_days_in_month\<close>, \<^verbatim>\<open>_days_before_month\<close>,
  \<^verbatim>\<open>_ymd2ord\<close> and \<^verbatim>\<open>_ord2ymd\<close>.
\<close>

type_synonym date = int

definition is_leap :: "int \<Rightarrow> bool" where
  "is_leap year = (year mod 4 = 0 \<and> (year mod 100 \<noteq> 0 \<or> year mod 400 = 0))"

definition days_before_year :: "int \<Rightarrow> int" where
  "days_before_year year = (let y = year - 1 in y * 365 + y div 4 - y div 100 + y div 400)"

definition month_lengths :: "int list" where
  "month_lengths = [31, 28, 31, 30, 31, 30, 31, 31, 30, 31, 30, 31]"

definition month_offsets :: "int list" where
  "month_offsets = [0, 31, 59, 90, 120, 151, 181, 212, 243, 273, 304, 334]"

definition days_in_month :: "int \<Rightarrow> int \<Rightarrow> int" where
  "days_in_month year month =
     (if month = 2 \<and> is_leap year then 29 else month_lengths ! nat (month - 1))"

definition days_before_month :: "int \<Rightarrow> int \<Rightarrow> int" where
  "days_before_month year month =
     month_offsets ! nat (month - 1) + (if 2 < month \<and> is_leap year then 1 else 0)"

definition ymd2ord :: "int \<Rightarrow> int \<Rightarrow> int \<Rightarrow> date" where
  "ymd2ord year month day = days_before_year year + days_before_month year month + day"

text \<open>\<^verbatim>\<open>date(year, month, day)\<close>; \<open>None\<close> is the \<^verbatim>\<open>ValueError\<close>.\<close>

definition make_date :: "int \<Rightarrow> int \<Rightarrow> int \<Rightarrow> date option" where
  "make_date year month day =
     (if 1 \<le> year \<and> year \<le> 9999 \<and> 1 \<le> month \<and> month \<le> 12
         \<and> 1 \<le> day \<and> day \<le> days_in_month year month
      then Some (ymd2ord year month day) else None)"

definition ord2ymd :: "date \<Rightarrow> int \<times> int \<times> int" where
  "ord2ymd ordinal =
     (let n = ordinal - 1;
          n400 = n div 146097; r400 = n mod 146097;
          n100 = r400 div 36524; r100 = r400 mod 36524;
          n4 = r100 div 1461; r4 = r100 mod 1461;
          n1 = r4 div 365; r1 = r4 mod 365;
          year = n400 * 400 + 1 + n100 * 100 + n4 * 4 + n1
      in if n1 = 4 \<or> n100 = 4 then (year - 1, 12, 31)
         else
           let leapyear = (n1 = 3 \<and> (n4 \<noteq> 24 \<or> n100 = 3));
               month = (r1 + 50) div 32;
               preceding = month_offsets ! nat (month - 1) + (if 2 < month \<and> leapyear then 1 else 0)
           in if r1 < preceding
              then (year, month - 1,
                    r1 - (preceding - (month_lengths ! nat (month - 2)
                                        + (if month - 1 = 2 \<and> leapyear then 1 else 0))) + 1)
              else (year, month, r1 - preceding + 1))"

definition date_year :: "date \<Rightarrow> int" where
  "date_year d = fst (ord2ymd d)"

definition date_month :: "date \<Rightarrow> int" where
  "date_month d = fst (snd (ord2ymd d))"

definition date_day :: "date \<Rightarrow> int" where
  "date_day d = snd (snd (ord2ymd d))"

text \<open>\<^verbatim>\<open>d.isoformat()\<close>, that is \<^verbatim>\<open>"%04d-%02d-%02d" % (year, month, day)\<close>.\<close>

definition isoformat :: "date \<Rightarrow> string" where
  "isoformat d =
     zero_pad 4 (nat (date_year d)) @ ''-'' @ zero_pad 2 (nat (date_month d)) @ ''-''
       @ zero_pad 2 (nat (date_day d))"

text \<open>\<^verbatim>\<open>d.replace(day=1)\<close>.\<close>

definition first_of_month :: "date \<Rightarrow> date" where
  "first_of_month d = ymd2ord (date_year d) (date_month d) 1"

subsection \<open>\<^verbatim>\<open>datetime.strptime\<close>\<close>

text \<open>
  \<^verbatim>\<open>strptime\<close> turns the format into a regular expression and takes the first match
  of its backtracking search at the start of the text. A matcher here returns every way to
  match a directive at the start of a text, in the order the search tries them, each with
  the text that is left; the head of the list for a whole format is the match
  \<^verbatim>\<open>strptime\<close> finds.
\<close>

type_synonym 'a rx = "string \<Rightarrow> ('a \<times> string) list"

text \<open>A directive whose alternatives are two characters, then one digit.\<close>

definition rx_num :: "(char \<Rightarrow> char \<Rightarrow> bool) \<Rightarrow> (char \<Rightarrow> bool) \<Rightarrow> nat rx" where
  "rx_num two one s =
     (case s of a # b # r \<Rightarrow> (if two a b then [(int_of_digits [a, b], r)] else []) | _ \<Rightarrow> [])
     @ (case s of a # r \<Rightarrow> (if one a then [(digit_val a, r)] else []) | [] \<Rightarrow> [])"

definition in_range :: "char \<Rightarrow> char \<Rightarrow> char \<Rightarrow> bool" where
  "in_range lo hi c = (lo \<le> c \<and> c \<le> hi)"

text \<open>\<^verbatim>\<open>%Y\<close> is \<^verbatim>\<open>\d\d\d\d\<close>.\<close>

definition rx_Y :: "nat rx" where
  "rx_Y s =
     (case s of
        a # b # c # d # r \<Rightarrow>
          (if is_digit a \<and> is_digit b \<and> is_digit c \<and> is_digit d
           then [(int_of_digits [a, b, c, d], r)] else [])
      | _ \<Rightarrow> [])"

text \<open>\<^verbatim>\<open>%m\<close> is \<^verbatim>\<open>1[0-2]|0[1-9]|[1-9]\<close>.\<close>

definition rx_m :: "nat rx" where
  "rx_m = rx_num (\<lambda>a b. (a = CHR ''1'' \<and> in_range (CHR ''0'') (CHR ''2'') b)
                       \<or> (a = CHR ''0'' \<and> in_range (CHR ''1'') (CHR ''9'') b))
                 (in_range (CHR ''1'') (CHR ''9''))"

text \<open>\<^verbatim>\<open>%d\<close> is \<^verbatim>\<open>3[0-1]|[1-2]\d|0[1-9]|[1-9]| [1-9]\<close>.\<close>

definition rx_d :: "nat rx" where
  "rx_d s =
     rx_num (\<lambda>a b. (a = CHR ''3'' \<and> in_range (CHR ''0'') (CHR ''1'') b)
                  \<or> (in_range (CHR ''1'') (CHR ''2'') a \<and> is_digit b)
                  \<or> (a = CHR ''0'' \<and> in_range (CHR ''1'') (CHR ''9'') b))
            (in_range (CHR ''1'') (CHR ''9'')) s
     @ (case s of
          a # b # r \<Rightarrow>
            (if a = CHR '' '' \<and> in_range (CHR ''1'') (CHR ''9'') b then [(digit_val b, r)] else [])
        | _ \<Rightarrow> [])"

text \<open>\<^verbatim>\<open>%H\<close> is \<^verbatim>\<open>2[0-3]|[0-1]\d|\d\<close>.\<close>

definition rx_H :: "nat rx" where
  "rx_H = rx_num (\<lambda>a b. (a = CHR ''2'' \<and> in_range (CHR ''0'') (CHR ''3'') b)
                       \<or> (in_range (CHR ''0'') (CHR ''1'') a \<and> is_digit b))
                 is_digit"

text \<open>\<^verbatim>\<open>%M\<close> is \<^verbatim>\<open>[0-5]\d|\d\<close>.\<close>

definition rx_M :: "nat rx" where
  "rx_M = rx_num (\<lambda>a b. in_range (CHR ''0'') (CHR ''5'') a \<and> is_digit b) is_digit"

text \<open>\<^verbatim>\<open>%S\<close> is \<^verbatim>\<open>6[0-1]|[0-5]\d|\d\<close>.\<close>

definition rx_S :: "nat rx" where
  "rx_S = rx_num (\<lambda>a b. (a = CHR ''6'' \<and> in_range (CHR ''0'') (CHR ''1'') b)
                       \<or> (in_range (CHR ''0'') (CHR ''5'') a \<and> is_digit b))
                 is_digit"

text \<open>A character of the format itself; the expression ignores case.\<close>

definition rx_lit :: "char \<Rightarrow> unit rx" where
  "rx_lit c s =
     (case s of x # r \<Rightarrow> (if lower_char x = lower_char c then [((), r)] else []) | [] \<Rightarrow> [])"

text \<open>The fields a match binds: year, month, day, hour, minute, second.\<close>

type_synonym fields = "nat \<times> nat \<times> nat \<times> nat \<times> nat \<times> nat"

text \<open>\<^verbatim>\<open>"%Y-%m-%d"\<close>\<close>

definition match_Y_m_d :: "fields rx" where
  "match_Y_m_d s =
     [((y, m, d, 0, 0, 0), r5).
        (y, r1) \<leftarrow> rx_Y s, (u, r2) \<leftarrow> rx_lit (CHR ''-'') r1, (m, r3) \<leftarrow> rx_m r2,
        (v, r4) \<leftarrow> rx_lit (CHR ''-'') r3, (d, r5) \<leftarrow> rx_d r4]"

text \<open>\<^verbatim>\<open>"%m/%d/%Y"\<close> and \<^verbatim>\<open>"%m-%d-%Y"\<close>\<close>

definition match_m_d_Y :: "char \<Rightarrow> fields rx" where
  "match_m_d_Y sep s =
     [((y, m, d, 0, 0, 0), r5).
        (m, r1) \<leftarrow> rx_m s, (u, r2) \<leftarrow> rx_lit sep r1, (d, r3) \<leftarrow> rx_d r2,
        (v, r4) \<leftarrow> rx_lit sep r3, (y, r5) \<leftarrow> rx_Y r4]"

text \<open>\<^verbatim>\<open>"%Y%m%d"\<close>\<close>

definition match_Ymd :: "fields rx" where
  "match_Ymd s =
     [((y, m, d, 0, 0, 0), r3). (y, r1) \<leftarrow> rx_Y s, (m, r2) \<leftarrow> rx_m r1, (d, r3) \<leftarrow> rx_d r2]"

text \<open>\<^verbatim>\<open>"%Y%m%dT%H%M%S"\<close>\<close>

definition match_YmdTHMS :: "fields rx" where
  "match_YmdTHMS s =
     [((y, m, d, hh, mm, ss), r7).
        (y, r1) \<leftarrow> rx_Y s, (m, r2) \<leftarrow> rx_m r1, (d, r3) \<leftarrow> rx_d r2,
        (u, r4) \<leftarrow> rx_lit (CHR ''T'') r3, (hh, r5) \<leftarrow> rx_H r4, (mm, r6) \<leftarrow> rx_M r5,
        (ss, r7) \<leftarrow> rx_S r6]"

text \<open>
  \<^verbatim>\<open>datetime.strptime(s, fmt).date()\<close> from the matches of \<open>fmt\<close> on \<open>s\<close>:
  \<open>None\<close> is the \<^verbatim>\<open>ValueError\<close> raised when nothing matches, when text is left
  after the first match, or when the fields are no date and time.
\<close>

definition strptime_date :: "(fields \<times> string) list \<Rightarrow> date option" where
  "strptime_date ms =
     (case ms of
        [] \<Rightarrow> None
      | ((y, m, d, hh, mm, ss), rest) # other \<Rightarrow>
          if rest \<noteq> [] then None
          else if hh \<le> 23 \<and> mm \<le> 59 \<and> ss \<le> 59 then make_date (int y) (int m) (int d)
          else None)"

text \<open>\<^verbatim>\<open>_parse_date(ds)\<close> for a string \<open>ds\<close>.\<close>

definition parse_date :: "string \<Rightarrow> date option" where
  "parse_date ds =
     (if ds = [] then None
      else case strptime_date (match_Y_m_d ds) of
             Some d \<Rightarrow> Some d
           | None \<Rightarrow>
               (case strptime_date (match_m_d_Y (CHR ''/'') ds) of
                  Some d \<Rightarrow> Some d
                | None \<Rightarrow> strptime_date (match_m_d_Y (CHR ''-'') ds)))"

text \<open>\<^verbatim>\<open>_parse_ical_date(dt_str)\<close>\<close>

definition parse_ical_date :: "string \<Rightarrow> date option" where
  "parse_ical_date dt_str =
     (if dt_str = [] then None
      else
        let s = rstrip_char (CHR ''Z'') (py_strip dt_str)
        in case strptime_date (match_Ymd s) of
             Some d \<Rightarrow> Some d
           | None \<Rightarrow> strptime_date (match_YmdTHMS s))"

section \<open>Records\<close>

text \<open>
  The booking dictionary: the keys of the \<^verbatim>\<open>Booking\<close> data class that the functions
  read, and \<^verbatim>\<open>ical_uid\<close>, which the calendar import adds.
\<close>

record booking =
  booking_id :: string
  property_id :: string
  guest_name :: string
  guest_phone :: string
  guest_email :: string
  num_guests :: nat
  check_in :: string
  check_out :: string
  num_nights :: int
  nightly_rate :: rat
  cleaning_fee :: rat
  total_payout :: rat
  platform :: string
  platform_fee :: rat
  status :: string
  special_requests :: string
  guest_notes :: string
  turnover_status :: string
  cleaner_confirmed :: bool
  rating_given :: int
  ical_uid :: string
  created_date :: string

text \<open>The dictionary the calendar import returns for a blocked interval.\<close>

record blocked =
  blk_start :: string
  blk_end :: string
  blk_reason :: string
  blk_property_id :: string

section \<open>Calendar import\<close>

text \<open>
  The dictionary of one \<^verbatim>\<open>VEVENT\<close>: an association list whose first pair for a key
  is the value last stored under it.
\<close>

type_synonym event = "(string \<times> string) list"

definition event_get :: "event \<Rightarrow> string \<Rightarrow> string \<Rightarrow> string" where
  "event_get ev k dflt = (case map_of ev k of None \<Rightarrow> dflt | Some v \<Rightarrow> v)"

definition strip_prefix :: "string \<Rightarrow> string \<Rightarrow> string" where
  "strip_prefix p s = (if startswith s p then drop (length p) s else s)"

text \<open>
  \<^verbatim>\<open>_extract_guest_name(summary, platform)\<close>. \<open>split_first\<close> finds the separator
  exactly when \<^verbatim>\<open>" - " in s\<close>.
\<close>

definition extract_guest_name :: "string \<Rightarrow> string \<Rightarrow> string" where
  "extract_guest_name summary plat =
     (if summary = [] then ''Guest (iCal)''
      else
        let s = py_strip summary; sl = py_lower s
        in if sl = ''reserved'' \<or> sl = ''airbnb (reserved)'' then ''Airbnb Guest''
           else
             case split_first '' - '' s of
               Some (left, right) \<Rightarrow>
                 if py_lower left \<in> set [''reserved'', ''booked'', ''vrbo'', ''booking.com'']
                 then (let name = py_strip right
                       in if name \<noteq> [] \<and> py_lower name \<notin> set [''reserved'', ''booked'']
                          then name else plat @ '' Guest'')
                 else (let name = py_strip right
                       in if name \<noteq> [] then name else plat @ '' Guest'')
             | None \<Rightarrow>
                 let name = py_strip (takeWhile (\<lambda>c. c \<noteq> CHR ''('') s)
                 in if py_in ''('' s \<and> name \<noteq> [] then name
                    else
                      let s1 = strip_prefix ''Airbnb '' s;
                          s2 = strip_prefix ''VRBO '' s1;
                          s3 = strip_prefix ''Booking.com '' s2
                      in if s3 \<noteq> [] then s3 else plat @ '' Guest'')"

text \<open>The telephone number and the number of guests read from the description.\<close>

definition extract_phone :: "string \<Rightarrow> string" where
  "extract_phone description =
     (if py_in ''phone'' (py_lower description)
      then foldl (\<lambda>phone part.
                    if py_in ''phone'' (py_lower part)
                    then (if py_in '':'' part
                          then py_strip (snd (partition_char (CHR '':'') part)) else [])
                    else phone)
             [] (split_char (CHR 0x0A) description)
      else [])"

definition extract_num_guests :: "string \<Rightarrow> nat" where
  "extract_num_guests description =
     foldl (\<lambda>n part.
              if py_in ''guest'' (py_lower part)
              then (case digit_runs part of [] \<Rightarrow> n | r # rs \<Rightarrow> int_of_digits r)
              else n)
       2 (split_char (CHR 0x0A) description)"

definition blocked_keywords :: "string list" where
  "blocked_keywords =
     [''not available'', ''blocked'', ''closed'', ''airbnb (not available)'',
      ''owner block'', ''maintenance'', ''unavailable'']"

definition is_blocked_summary :: "string \<Rightarrow> bool" where
  "is_blocked_summary summary = list_ex (\<lambda>kw. py_in kw (py_lower summary)) blocked_keywords"

datatype ical_item = Blocked blocked | Candidate booking

text \<open>
  \<^verbatim>\<open>_process_ical_event(event, property_id, platform, default_rate, cleaning_fee)\<close>;
  \<open>today\<close> is \<^verbatim>\<open>date.today()\<close> and \<open>new_id\<close> what \<^verbatim>\<open>generate_id()\<close> returns.
\<close>

definition process_ical_event ::
  "event \<Rightarrow> string \<Rightarrow> string \<Rightarrow> rat \<Rightarrow> rat \<Rightarrow> date \<Rightarrow> string \<Rightarrow> ical_item option" where
  "process_ical_event ev pid plat default_rate clean_fee today new_id =
     (let summary = event_get ev ''SUMMARY'' [];
          dtstart = event_get ev ''DTSTART'' [];
          dtend = event_get ev ''DTEND'' [];
          uid = event_get ev ''UID'' [];
          description = event_get ev ''DESCRIPTION'' []
      in case (parse_ical_date dtstart, parse_ical_date dtend) of
           (Some ci, Some co) \<Rightarrow>
             if is_blocked_summary summary
             then Some (Blocked \<lparr>blk_start = isoformat ci, blk_end = isoformat co,
                                 blk_reason = summary, blk_property_id = pid\<rparr>)
             else
               let nights = max (co - ci) 1;
                   (payout, plat_fee) = calculate_payout default_rate nights clean_fee default_pct
               in Some (Candidate
                    \<lparr>booking_id = new_id,
                     property_id = pid,
                     guest_name = extract_guest_name summary plat,
                     guest_phone = (if description \<noteq> [] then extract_phone description else []),
                     guest_email = [],
                     num_guests = (if description \<noteq> [] then extract_num_guests description else 2),
                     check_in = isoformat ci,
                     check_out = isoformat co,
                     num_nights = nights,
                     nightly_rate = default_rate,
                     cleaning_fee = clean_fee,
                     total_payout = payout,
                     platform = plat,
                     platform_fee = plat_fee,
                     status = (if today < ci then ''confirmed''
                               else if today < co then ''checked_in'' else ''checked_out''),
                     special_requests = [],
                     guest_notes = (if uid \<noteq> [] then ''Imported from iCal. UID: '' @ take 40 uid
                                    else ''Imported from iCal''),
                     turnover_status = ''pending'',
                     cleaner_confirmed = False,
                     rating_given = 0,
                     ical_uid = uid,
                     created_date = isoformat today\<rparr>)
         | _ \<Rightarrow> None)"

text \<open>
  The loop of \<^verbatim>\<open>parse_ical\<close> over the lines. Its state is \<^verbatim>\<open>in_event\<close>, the
  event being read, and the two result lists. \<open>ids k\<close> is the identifier that
  \<^verbatim>\<open>generate_id()\<close> returns at its call number \<open>k\<close>; it is called once for each
  booking built.
\<close>

type_synonym ical_state = "bool \<times> event \<times> booking list \<times> blocked list"

definition ical_line ::
  "string \<Rightarrow> string \<Rightarrow> rat \<Rightarrow> rat \<Rightarrow> date \<Rightarrow> (nat \<Rightarrow> string) \<Rightarrow> ical_state \<Rightarrow> string \<Rightarrow> ical_state" where
  "ical_line pid plat default_rate clean_fee today ids st raw =
     (case st of
        (in_event, ev, bookings, blockeds) \<Rightarrow>
          let line = py_strip raw
          in if line = ''BEGIN:VEVENT'' then (True, [], bookings, blockeds)
             else if line = ''END:VEVENT''
             then (if ev \<noteq> []
                   then (case process_ical_event ev pid plat default_rate clean_fee today
                                (ids (length bookings)) of
                           None \<Rightarrow> (False, [], bookings, blockeds)
                         | Some (Blocked x) \<Rightarrow> (False, [], bookings, blockeds @ [x])
                         | Some (Candidate b) \<Rightarrow> (False, [], bookings @ [b], blockeds))
                   else (False, [], bookings, blockeds))
             else if in_event \<and> py_in '':'' line
             then (let (key, val) = partition_char (CHR '':'') line;
                       key_base = takeWhile (\<lambda>c. c \<noteq> CHR '';'') key
                   in (in_event, (key_base, val) # ev, bookings, blockeds))
             else st)"

definition ical_lines :: "string \<Rightarrow> string list" where
  "ical_lines ical_text =
     splitlines (py_remove [CHR 0x0D, CHR 0x0A, CHR 0x09]
                  (py_remove [CHR 0x0D, CHR 0x0A, CHR '' ''] ical_text))"

text \<open>
  \<^verbatim>\<open>parse_ical(ical_text, property_id, platform, default_rate, cleaning_fee)\<close>
  returns the bookings and the blocked intervals.
\<close>

definition parse_ical ::
  "string \<Rightarrow> string \<Rightarrow> string \<Rightarrow> rat \<Rightarrow> rat \<Rightarrow> date \<Rightarrow> (nat \<Rightarrow> string) \<Rightarrow> booking list \<times> blocked list" where
  "parse_ical ical_text pid plat default_rate clean_fee today ids =
     (if ical_text = [] \<or> py_strip ical_text = [] then ([], [])
      else
        case foldl (ical_line pid plat default_rate clean_fee today ids)
               (False, [], [], []) (ical_lines ical_text) of
          (in_event, ev, bookings, blockeds) \<Rightarrow> (bookings, blockeds))"

text \<open>
  \<^verbatim>\<open>deduplicate_ical_bookings(existing_bookings, new_bookings)\<close> returns the new
  bookings kept and the number of those skipped.
\<close>

type_synonym bkey = "string \<times> string \<times> string"

definition booking_key :: "booking \<Rightarrow> bkey" where
  "booking_key b = (property_id b, check_in b, check_out b)"

definition dedup_step :: "bkey set \<times> booking list \<times> nat \<Rightarrow> booking \<Rightarrow> bkey set \<times> booking list \<times> nat" where
  "dedup_step st b =
     (case st of
        (existing_keys, unique, dupes) \<Rightarrow>
          if booking_key b \<notin> existing_keys
          then (insert (booking_key b) existing_keys, unique @ [b], dupes)
          else (existing_keys, unique, dupes + 1))"

definition deduplicate_ical_bookings :: "booking list \<Rightarrow> booking list \<Rightarrow> booking list \<times> nat" where
  "deduplicate_ical_bookings existing_bookings new_bookings =
     (let existing_keys = foldl (\<lambda>ks b. insert (booking_key b) ks) {} existing_bookings
      in case foldl dedup_step (existing_keys, [], 0) new_bookings of
           (keys, unique, dupes) \<Rightarrow> (unique, dupes))"

text \<open>
  The deduplication rule in the words of the specification: a new booking is kept unless
  its key \<^verbatim>\<open>(property_id, check_in, check_out)\<close> is that of a ledger booking or of a
  booking kept earlier in the batch. \<open>seen\<close> holds those keys.
\<close>

fun spec_unique :: "bkey list \<Rightarrow> booking list \<Rightarrow> booking list" where
  "spec_unique seen [] = []"
| "spec_unique seen (b # bs) =
     (if booking_key b \<in> set seen then spec_unique seen bs
      else b # spec_unique (booking_key b # seen) bs)"

text \<open>
  The events of a feed: the dictionaries that the loop of \<^verbatim>\<open>parse_ical\<close> hands to
  \<^verbatim>\<open>_process_ical_event\<close>, in that order. \<open>event_line\<close> is \<open>ical_line\<close> with
  the event recorded where \<open>ical_line\<close> processes it.
\<close>

definition event_line :: "bool \<times> event \<times> event list \<Rightarrow> string \<Rightarrow> bool \<times> event \<times> event list" where
  "event_line st raw =
     (case st of
        (in_event, ev, evs) \<Rightarrow>
          let line = py_strip raw
          in if line = ''BEGIN:VEVENT'' then (True, [], evs)
             else if line = ''END:VEVENT''
             then (False, [], if ev \<noteq> [] then evs @ [ev] else evs)
             else if in_event \<and> py_in '':'' line
             then (let (key, val) = partition_char (CHR '':'') line;
                       key_base = takeWhile (\<lambda>c. c \<noteq> CHR '';'') key
                   in (in_event, (key_base, val) # ev, evs))
             else st)"

definition feed_events :: "string \<Rightarrow> event list" where
  "feed_events ical_text =
     (if ical_text = [] \<or> py_strip ical_text = [] then []
      else case foldl event_line (False, [], []) (ical_lines ical_text) of
             (in_event, ev, evs) \<Rightarrow> evs)"

text \<open>What the loop does with one event: the branch of \<open>ical_line\<close> at the end of an event.\<close>

definition classify_event ::
  "string \<Rightarrow> string \<Rightarrow> rat \<Rightarrow> rat \<Rightarrow> date \<Rightarrow> (nat \<Rightarrow> string)
     \<Rightarrow> booking list \<times> blocked list \<Rightarrow> event \<Rightarrow> booking list \<times> blocked list" where
  "classify_event pid plat default_rate clean_fee today ids acc ev =
     (case acc of
        (bookings, blockeds) \<Rightarrow>
          (case process_ical_event ev pid plat default_rate clean_fee today
                  (ids (length bookings)) of
             None \<Rightarrow> (bookings, blockeds)
           | Some (Blocked x) \<Rightarrow> (bookings, blockeds @ [x])
           | Some (Candidate b) \<Rightarrow> (bookings @ [b], blockeds)))"


definition event_start :: "event \<Rightarrow> date option" where
  "event_start ev = parse_ical_date (event_get ev ''DTSTART'' [])"

definition event_end :: "event \<Rightarrow> date option" where
  "event_end ev = parse_ical_date (event_get ev ''DTEND'' [])"

definition event_summary :: "event \<Rightarrow> string" where
  "event_summary ev = event_get ev ''SUMMARY'' []"

section \<open>Revenue and occupancy\<close>

text \<open>The dictionary that \<^verbatim>\<open>calculate_property_metrics\<close> returns.\<close>

record metrics =
  total_revenue :: rat
  total_nights_booked :: int
  total_days :: int
  occupancy_rate :: rat
  avg_nightly_rate :: rat
  total_bookings :: nat
  avg_rating :: rat

text \<open>
  The body of the loop of \<^verbatim>\<open>calculate_property_metrics\<close>. The state is
  \<^verbatim>\<open>total_revenue\<close>, \<^verbatim>\<open>total_nights\<close> and \<^verbatim>\<open>ratings\<close>.
\<close>

definition metrics_step :: "date \<Rightarrow> date \<Rightarrow> rat \<times> int \<times> int list \<Rightarrow> booking \<Rightarrow> rat \<times> int \<times> int list" where
  "metrics_step start_date end_date st b =
     (case st of
        (revenue, nights_sum, ratings) \<Rightarrow>
          (case (parse_date (check_in b), parse_date (check_out b)) of
             (Some b_in, Some b_out) \<Rightarrow>
               let nights = max (min b_out end_date - max b_in start_date) 0;
                   prorate = of_int nights / of_int (max (b_out - b_in) 1);
                   ratings' = (if 0 < rating_given b then ratings @ [rating_given b] else ratings)
               in if 0 < nights
                  then (revenue + total_payout b * prorate, nights_sum + nights, ratings')
                  else (revenue, nights_sum, ratings')
           | _ \<Rightarrow> st))"

text \<open>
  \<^verbatim>\<open>calculate_property_metrics(bookings, property_id, start_date, end_date)\<close>;
  a date that is \<open>None\<close> takes its default from \<open>today\<close>.
\<close>

definition calculate_property_metrics ::
  "booking list \<Rightarrow> string \<Rightarrow> date option \<Rightarrow> date option \<Rightarrow> date \<Rightarrow> metrics" where
  "calculate_property_metrics bookings pid start_opt end_opt today =
     (let start_date = (case start_opt of None \<Rightarrow> first_of_month today | Some d \<Rightarrow> d);
          end_date = (case end_opt of None \<Rightarrow> today | Some d \<Rightarrow> d);
          days = max (end_date - start_date) 1;
          prop_bookings = filter (\<lambda>b. property_id b = pid \<and> status b \<noteq> ''cancelled'') bookings
      in case foldl (metrics_step start_date end_date) (0, 0, []) prop_bookings of
           (revenue, nights_sum, ratings) \<Rightarrow>
             \<lparr>total_revenue = py_round revenue 2,
              total_nights_booked = nights_sum,
              total_days = days,
              occupancy_rate =
                py_round (if days \<noteq> 0 then of_int nights_sum / of_int days * 100 else 0) 1,
              avg_nightly_rate =
                py_round (if nights_sum \<noteq> 0 then revenue / of_int nights_sum else 0) 2,
              total_bookings = length prop_bookings,
              avg_rating =
                (if ratings \<noteq> []
                 then py_round (of_int (sum_list ratings) / of_int (int (length ratings))) 1
                 else 0)\<rparr>)"

text \<open>
  The aggregation in the words of the specification. The bookings counted are those of
  the property that are not cancelled and whose two dates parse; \<open>shared_nights\<close> is the
  number of nights that lie both in the stay \<open>[b_in, b_out)\<close> and in the window
  \<open>[start, end)\<close>; the revenue of a booking is its payout times the shared nights over
  its total nights, and nothing when it has no night.
\<close>

definition dated :: "booking \<Rightarrow> (booking \<times> date \<times> date) option" where
  "dated b =
     (case (parse_date (check_in b), parse_date (check_out b)) of
        (Some b_in, Some b_out) \<Rightarrow> Some (b, b_in, b_out)
      | _ \<Rightarrow> None)"

definition counted_bookings :: "booking list \<Rightarrow> string \<Rightarrow> (booking \<times> date \<times> date) list" where
  "counted_bookings bookings pid =
     List.map_filter dated
       (filter (\<lambda>b. property_id b = pid \<and> status b \<noteq> ''cancelled'') bookings)"

definition shared_nights :: "date \<Rightarrow> date \<Rightarrow> date \<Rightarrow> date \<Rightarrow> int" where
  "shared_nights start_date end_date b_in b_out =
     int (card ({b_in..<b_out} \<inter> {start_date..<end_date}))"

definition spec_prorated :: "rat \<Rightarrow> int \<Rightarrow> int \<Rightarrow> rat" where
  "spec_prorated payout shared stay =
     (if stay \<le> 0 then 0 else payout * of_int shared / of_int stay)"

definition spec_nights :: "booking list \<Rightarrow> string \<Rightarrow> date \<Rightarrow> date \<Rightarrow> int" where
  "spec_nights bookings pid start_date end_date =
     sum_list (map (\<lambda>(b, b_in, b_out). shared_nights start_date end_date b_in b_out)
                 (counted_bookings bookings pid))"

definition spec_revenue :: "booking list \<Rightarrow> string \<Rightarrow> date \<Rightarrow> date \<Rightarrow> rat" where
  "spec_revenue bookings pid start_date end_date =
     sum_list (map (\<lambda>(b, b_in, b_out).
                      spec_prorated (total_payout b)
                        (shared_nights start_date end_date b_in b_out) (b_out - b_in))
                 (counted_bookings bookings pid))"

text \<open>Two stays share a night; no two stays of a list share one.\<close>

definition stays_overlap :: "date \<times> date \<Rightarrow> date \<times> date \<Rightarrow> bool" where
  "stays_overlap s t = (max (fst s) (fst t) < min (snd s) (snd t))"

fun disjoint_stays :: "(date \<times> date) list \<Rightarrow> bool" where
  "disjoint_stays [] = True"
| "disjoint_stays (s # rest) = (list_all (\<lambda>t. \<not> stays_overlap s t) rest \<and> disjoint_stays rest)"

section \<open>Gap analysis\<close>

text \<open>A gap dictionary: \<^verbatim>\<open>start\<close>, \<^verbatim>\<open>end\<close> and \<^verbatim>\<open>nights\<close>.\<close>

record gap =
  gap_start :: string
  gap_end :: string
  gap_nights :: int

definition make_gap :: "date \<Rightarrow> date \<Rightarrow> gap" where
  "make_gap s e = \<lparr>gap_start = isoformat s, gap_end = isoformat e, gap_nights = e - s\<rparr>"

text \<open>The body of the loop of \<^verbatim>\<open>get_gap_nights\<close>; the state is \<^verbatim>\<open>gaps\<close> and \<^verbatim>\<open>current\<close>.\<close>

definition gap_step :: "gap list \<times> date \<Rightarrow> booking \<Rightarrow> gap list \<times> date" where
  "gap_step st b =
     (case st of
        (gaps, current) \<Rightarrow>
          (case (parse_date (check_in b), parse_date (check_out b)) of
             (Some b_in, Some b_out) \<Rightarrow>
               ((if current < b_in \<and> 1 \<le> b_in - current
                 then gaps @ [make_gap current b_in] else gaps),
                max current b_out)
           | _ \<Rightarrow> st))"

definition future_relevant :: "string \<Rightarrow> date \<Rightarrow> booking \<Rightarrow> bool" where
  "future_relevant pid today_date b =
     (property_id b = pid \<and> status b \<noteq> ''cancelled''
      \<and> (case parse_date (check_out b) of None \<Rightarrow> False | Some d \<Rightarrow> today_date < d))"

text \<open>
  \<^verbatim>\<open>get_gap_nights(bookings, property_id, lookahead_days)\<close>, with
  \<^verbatim>\<open>date.today()\<close> as \<open>today_date\<close>. \<^verbatim>\<open>sorted\<close> is stable, and orders the
  \<^verbatim>\<open>check_in\<close> strings.
\<close>

definition get_gap_nights :: "booking list \<Rightarrow> string \<Rightarrow> int \<Rightarrow> date \<Rightarrow> gap list" where
  "get_gap_nights bookings pid lookahead_days today_date =
     (let end_date = today_date + lookahead_days;
          prop_bookings = sort_key check_in (filter (future_relevant pid today_date) bookings)
      in case foldl gap_step ([], today_date) prop_bookings of
           (gaps, current) \<Rightarrow>
             if current < end_date then gaps @ [make_gap current end_date] else gaps)"




section \<open>Schedule E\<close>

text \<open>
  The keys of a property dictionary that the functions below read, and of an expense
  dictionary.
\<close>

record property =
  prop_id :: string
  prop_name :: string
  prop_nickname :: string
  prop_status :: string
  prop_check_in_time :: string
  prop_check_out_time :: string
  prop_address :: string
  prop_insurance_annual :: rat
  prop_property_tax_annual :: rat

record expense =
  exp_property_id :: string
  exp_category :: string
  exp_amount :: rat
  exp_date :: string

text \<open>
  The \<^verbatim>\<open>sched\<close> dictionary before the totals are added, and the dictionary returned,
  which has the totals too.
\<close>

record schedule_lines =
  property_address :: string
  fair_rental_days :: int
  line_3_rents :: rat
  line_5_advertising :: rat
  line_6_auto :: rat
  line_7_cleaning :: rat
  line_8_commissions :: rat
  line_9_insurance :: rat
  line_10_legal :: rat
  line_12_mortgage_int :: rat
  line_14_repairs :: rat
  line_15_supplies :: rat
  line_16_taxes :: rat
  line_17_utilities :: rat
  line_18_depreciation :: rat
  line_19_other :: rat

record schedule_e = schedule_lines +
  total_expenses :: rat
  net_income :: rat

text \<open>The expense lines that \<^verbatim>\<open>cat_map\<close> names, and \<^verbatim>\<open>cat_map.get(category, "line_19_other")\<close>.\<close>

datatype expense_line =
  Advertising | Auto | Cleaning | Commissions | Legal | Mortgage_int | Repairs | Supplies
  | Utilities | Depreciation | Other

definition cat_map :: "string \<Rightarrow> expense_line" where
  "cat_map category =
     (if category = ''Advertising/Marketing'' then Advertising
      else if category = ''Travel (Property Visits)'' then Auto
      else if category = ''Vehicle/Mileage'' then Auto
      else if category = ''Cleaning'' then Cleaning
      else if category = ''Maintenance/Repairs'' then Repairs
      else if category = ''Platform Fees'' then Commissions
      else if category = ''Professional Services (Accounting)'' then Legal
      else if category = ''Professional Services (Legal)'' then Legal
      else if category = ''Mortgage Interest'' then Mortgage_int
      else if category = ''Supplies (Guest)'' then Supplies
      else if category = ''Supplies (Cleaning)'' then Supplies
      else if category = ''Utilities (Electric)'' then Utilities
      else if category = ''Utilities (Gas)'' then Utilities
      else if category = ''Utilities (Water/Sewer)'' then Utilities
      else if category = ''Utilities (Internet/Cable)'' then Utilities
      else if category = ''Utilities (Trash)'' then Utilities
      else if category = ''Depreciation'' then Depreciation
      else Other)"

text \<open>\<^verbatim>\<open>sched[line] += amount\<close>\<close>

definition add_to_line :: "expense_line \<Rightarrow> rat \<Rightarrow> schedule_lines \<Rightarrow> schedule_lines" where
  "add_to_line l amount sched =
     (case l of
        Advertising \<Rightarrow> sched\<lparr>line_5_advertising := line_5_advertising sched + amount\<rparr>
      | Auto \<Rightarrow> sched\<lparr>line_6_auto := line_6_auto sched + amount\<rparr>
      | Cleaning \<Rightarrow> sched\<lparr>line_7_cleaning := line_7_cleaning sched + amount\<rparr>
      | Commissions \<Rightarrow> sched\<lparr>line_8_commissions := line_8_commissions sched + amount\<rparr>
      | Legal \<Rightarrow> sched\<lparr>line_10_legal := line_10_legal sched + amount\<rparr>
      | Mortgage_int \<Rightarrow> sched\<lparr>line_12_mortgage_int := line_12_mortgage_int sched + amount\<rparr>
      | Repairs \<Rightarrow> sched\<lparr>line_14_repairs := line_14_repairs sched + amount\<rparr>
      | Supplies \<Rightarrow> sched\<lparr>line_15_supplies := line_15_supplies sched + amount\<rparr>
      | Utilities \<Rightarrow> sched\<lparr>line_17_utilities := line_17_utilities sched + amount\<rparr>
      | Depreciation \<Rightarrow> sched\<lparr>line_18_depreciation := line_18_depreciation sched + amount\<rparr>
      | Other \<Rightarrow> sched\<lparr>line_19_other := line_19_other sched + amount\<rparr>)"

text \<open>The body of the loop over the expenses.\<close>

definition expense_step :: "string \<Rightarrow> int \<Rightarrow> schedule_lines \<Rightarrow> expense \<Rightarrow> schedule_lines" where
  "expense_step pid tax_year sched ex =
     (if exp_property_id ex = pid
         \<and> (case parse_date (exp_date ex) of None \<Rightarrow> False | Some d \<Rightarrow> date_year d = tax_year)
      then add_to_line (cat_map (exp_category ex)) (exp_amount ex) sched
      else sched)"

text \<open>The body of the loop that counts the fair rental days.\<close>

definition rental_days_step :: "int \<Rightarrow> int \<Rightarrow> booking \<Rightarrow> int" where
  "rental_days_step tax_year nights_sum b =
     (case (parse_date (check_in b), parse_date (check_out b)) of
        (Some b_in, Some b_out) \<Rightarrow>
          if date_year b_in = tax_year \<or> date_year b_out = tax_year
          then (let s = max b_in (ymd2ord tax_year 1 1);
                    e = min b_out (ymd2ord tax_year 12 31 + 1)
                in nights_sum + max (e - s) 0)
          else nights_sum
      | _ \<Rightarrow> nights_sum)"

text \<open>
  The sum of the values of \<^verbatim>\<open>sched\<close> whose key starts with \<^verbatim>\<open>line_\<close> and is not
  \<^verbatim>\<open>line_3_rents\<close>.
\<close>

definition expense_total :: "'a schedule_lines_scheme \<Rightarrow> rat" where
  "expense_total sched =
     line_5_advertising sched + line_6_auto sched + line_7_cleaning sched
     + line_8_commissions sched + line_9_insurance sched + line_10_legal sched
     + line_12_mortgage_int sched + line_14_repairs sched + line_15_supplies sched
     + line_16_taxes sched + line_17_utilities sched + line_18_depreciation sched
     + line_19_other sched"

text \<open>
  \<^verbatim>\<open>generate_schedule_e_summary(property_data, bookings, expenses, tax_year)\<close>; a
  \<open>tax_year\<close> that is \<open>None\<close> is the year of \<open>today\<close>.
\<close>

definition generate_schedule_e_summary ::
  "property \<Rightarrow> booking list \<Rightarrow> expense list \<Rightarrow> int option \<Rightarrow> date \<Rightarrow> schedule_e" where
  "generate_schedule_e_summary property_data bookings expenses tax_year_opt today =
     (let tax_year = (case tax_year_opt of None \<Rightarrow> date_year today | Some y \<Rightarrow> y);
          pid = prop_id property_data;
          year_bookings = filter (\<lambda>b. property_id b = pid \<and> status b \<noteq> ''cancelled'') bookings;
          nights_sum = foldl (rental_days_step tax_year) 0 year_bookings;
          gross = sum_list (map total_payout
                    (filter (\<lambda>b. case parse_date (check_in b) of
                                     None \<Rightarrow> False | Some d \<Rightarrow> date_year d = tax_year)
                       year_bookings));
          sched0 = \<lparr>property_address = prop_address property_data,
                    fair_rental_days = nights_sum,
                    line_3_rents = py_round gross 2,
                    line_5_advertising = 0, line_6_auto = 0, line_7_cleaning = 0,
                    line_8_commissions = 0,
                    line_9_insurance = py_round (prop_insurance_annual property_data) 2,
                    line_10_legal = 0, line_12_mortgage_int = 0, line_14_repairs = 0,
                    line_15_supplies = 0,
                    line_16_taxes = py_round (prop_property_tax_annual property_data) 2,
                    line_17_utilities = 0, line_18_depreciation = 0, line_19_other = 0\<rparr>;
          sched = foldl (expense_step pid tax_year) sched0 expenses;
          total_exp = expense_total sched
      in schedule_lines.extend sched
           \<lparr>total_expenses = py_round total_exp 2,
            net_income = py_round (line_3_rents sched - total_exp) 2\<rparr>)"

section \<open>Fetching a feed\<close>






section \<open>Daily briefing\<close>

text \<open>
  The keys of a maintenance item that the briefing reads, an action dictionary (its
  \<^verbatim>\<open>template\<close> key may be absent), and the briefing dictionary. An entry of
  \<^verbatim>\<open>check_ins_today\<close> and its like is a booking with the label of its property; an
  entry of \<^verbatim>\<open>active_stays\<close> also has the nights that remain.
\<close>

record maintenance_item =
  mnt_property_id :: string
  mnt_priority :: string
  mnt_status :: string
  mnt_title :: string

record action =
  act_priority :: string
  act_type :: string
  act_text :: string
  act_property_id :: string
  act_template :: "string option"

record briefing =
  br_date :: string
  br_actions :: "action list"
  br_check_ins_today :: "(booking \<times> string) list"
  br_check_outs_today :: "(booking \<times> string) list"
  br_check_ins_tomorrow :: "(booking \<times> string) list"
  br_active_stays :: "(booking \<times> string \<times> int) list"
  br_turnovers_needed :: "(booking \<times> string) list"
  br_maintenance_urgent :: "maintenance_item list"
  br_vacant_tonight :: "property list"
  br_occupancy_rate :: rat
  br_revenue_this_month :: rat
  br_summary :: string

text \<open>The pictographs at the head of the action texts, as UTF-8.\<close>

definition icon_key :: string where "icon_key = [CHR 0xF0, CHR 0x9F, CHR 0x94, CHR 0x91]"
definition icon_phone :: string where "icon_phone = [CHR 0xF0, CHR 0x9F, CHR 0x93, CHR 0xB1]"
definition icon_wave :: string where "icon_wave = [CHR 0xF0, CHR 0x9F, CHR 0x91, CHR 0x8B]"
definition icon_broom :: string where "icon_broom = [CHR 0xF0, CHR 0x9F, CHR 0xA7, CHR 0xB9]"
definition icon_star :: string where "icon_star = [CHR 0xE2, CHR 0xAD, CHR 0x90]"
definition icon_speech :: string where "icon_speech = [CHR 0xF0, CHR 0x9F, CHR 0x92, CHR 0xAC]"
definition icon_wrench :: string where "icon_wrench = [CHR 0xF0, CHR 0x9F, CHR 0x94, CHR 0xA7]"

text \<open>
  \<^verbatim>\<open>property_map.get(pid, {})\<close>: the last property of the list with the identifier,
  if there is one.
\<close>

definition find_property :: "property list \<Rightarrow> string \<Rightarrow> property option" where
  "find_property properties pid = find (\<lambda>p. prop_id p = pid) (rev properties)"

text \<open>\<^verbatim>\<open>prop.get("nickname") or prop.get("name", "Unknown")\<close>\<close>

definition property_label :: "property option \<Rightarrow> string" where
  "property_label prop =
     (case prop of
        None \<Rightarrow> ''Unknown''
      | Some p \<Rightarrow> if prop_nickname p \<noteq> [] then prop_nickname p else prop_name p)"

definition mk_action :: "string \<Rightarrow> string \<Rightarrow> string \<Rightarrow> string \<Rightarrow> string option \<Rightarrow> action" where
  "mk_action priority ty txt pid tmpl =
     \<lparr>act_priority = priority, act_type = ty, act_text = txt, act_property_id = pid,
      act_template = tmpl\<rparr>"

definition add_actions :: "action list \<Rightarrow> briefing \<Rightarrow> briefing" where
  "add_actions acts br = br\<lparr>br_actions := br_actions br @ acts\<rparr>"

text \<open>
  The body of the loop over the bookings. The state is the briefing and the set
  \<^verbatim>\<open>occupied_tonight\<close>, held as a list without repetition.
\<close>

definition briefing_step ::
  "property list \<Rightarrow> date \<Rightarrow> briefing \<times> string list \<Rightarrow> booking \<Rightarrow> briefing \<times> string list" where
  "briefing_step properties today st booking =
     (case st of
        (br, occupied) \<Rightarrow>
          if status booking = ''cancelled'' then st
          else
            let b_in = parse_date (check_in booking);
                b_out = parse_date (check_out booking);
                pid = property_id booking;
                prop = find_property properties pid;
                pname = property_label prop;
                guest = guest_name booking;
                br1 = (if b_in = Some today
                       then add_actions
                              [mk_action ''high'' ''check_in''
                                 (icon_key @ '' '' @ guest @ '' checks into '' @ pname @ '' at ''
                                    @ (case prop of None \<Rightarrow> ''3 PM'' | Some p \<Rightarrow> prop_check_in_time p))
                                 pid None,
                               mk_action ''medium'' ''message''
                                 (icon_phone @ '' Send check-in instructions to '' @ guest
                                    @ '' ('' @ pname @ '')'')
                                 pid (Some ''check_in_day'')]
                              (br\<lparr>br_check_ins_today := br_check_ins_today br @ [(booking, pname)]\<rparr>)
                       else br);
                br2 = (if b_in = Some (today + 1)
                       then add_actions
                              [mk_action ''medium'' ''message''
                                 (icon_phone @ '' Send day-before instructions to '' @ guest
                                    @ '' ('' @ pname @ '')'')
                                 pid (Some ''check_in_instructions'')]
                              (br1\<lparr>br_check_ins_tomorrow := br_check_ins_tomorrow br1 @ [(booking, pname)]\<rparr>)
                       else br1);
                br3 = (if b_out = Some today
                       then
                         let out = add_actions
                                     [mk_action ''high'' ''checkout''
                                        (icon_wave @ '' '' @ guest @ '' checks out of '' @ pname
                                           @ '' at ''
                                           @ (case prop of None \<Rightarrow> ''11 AM''
                                              | Some p \<Rightarrow> prop_check_out_time p))
                                        pid None]
                                     (br2\<lparr>br_check_outs_today := br_check_outs_today br2 @ [(booking, pname)]\<rparr>)
                         in if \<not> cleaner_confirmed booking
                            then add_actions
                                   [mk_action ''high'' ''turnover''
                                      (icon_broom @ '' Confirm turnover for '' @ pname) pid None]
                                   (out\<lparr>br_turnovers_needed := br_turnovers_needed out @ [(booking, pname)]\<rparr>)
                            else out
                       else br2);
                br4 = (if b_out = Some (today - 1)
                       then add_actions
                              [mk_action ''low'' ''message''
                                 (icon_star @ '' Review request to '' @ guest @ '' ('' @ pname @ '')'')
                                 pid (Some ''review_request'')]
                              br3
                       else br3);
                active = (case (b_in, b_out) of
                            (Some i, Some co) \<Rightarrow>
                              if i \<le> today \<and> today < co then Some (i, co) else None
                          | _ \<Rightarrow> None);
                br5 = (case active of
                         Some (i, co) \<Rightarrow>
                           let stay = br4\<lparr>br_active_stays := br_active_stays br4
                                         @ [(booking, pname, co - today)]\<rparr>
                           in if 4 \<le> num_nights booking
                                 \<and> i + num_nights booking div 2 = today
                              then add_actions
                                     [mk_action ''low'' ''message''
                                        (icon_speech @ '' Mid-stay check with '' @ guest
                                           @ '' ('' @ pname @ '')'')
                                        pid (Some ''mid_stay_check'')]
                                     stay
                              else stay
                       | None \<Rightarrow> br4);
                occupied' = (case active of
                               Some d \<Rightarrow> List.insert pid occupied
                             | None \<Rightarrow> occupied);
                br6 = (case b_in of
                         Some i \<Rightarrow>
                           if date_month i = date_month today \<and> date_year i = date_year today
                           then br5\<lparr>br_revenue_this_month :=
                                       br_revenue_this_month br5 + total_payout booking\<rparr>
                           else br5
                       | None \<Rightarrow> br5)
            in (br6, occupied'))"

text \<open>The body of the loop over the maintenance items.\<close>

definition maintenance_step :: "property list \<Rightarrow> briefing \<Rightarrow> maintenance_item \<Rightarrow> briefing" where
  "maintenance_step properties br item =
     (if mnt_status item \<in> set [''open'', ''in_progress'']
         \<and> mnt_priority item \<in> set [''high'', ''urgent'']
      then
        let prop = find_property properties (mnt_property_id item)
        in add_actions
             [mk_action (if mnt_priority item = ''urgent'' then ''high'' else ''medium'')
                ''maintenance''
                (icon_wrench @ '' '' @ mnt_title item @ '' at ''
                   @ (case prop of None \<Rightarrow> [] | Some p \<Rightarrow> prop_nickname p))
                (mnt_property_id item) None]
             (br\<lparr>br_maintenance_urgent := br_maintenance_urgent br @ [item]\<rparr>)
      else br)"

text \<open>The key by which the actions are sorted.\<close>

definition action_rank :: "action \<Rightarrow> nat" where
  "action_rank a =
     (if act_priority a = ''high'' then 0
      else if act_priority a = ''medium'' then 1
      else if act_priority a = ''low'' then 2 else 3)"

text \<open>\<^verbatim>\<open>sep.join(parts)\<close>\<close>

fun join_with :: "string \<Rightarrow> string list \<Rightarrow> string" where
  "join_with sep [] = []"
| "join_with sep [x] = x"
| "join_with sep (x # y # ys) = x @ sep @ join_with sep (y # ys)"

definition counted :: "nat \<Rightarrow> string \<Rightarrow> string" where
  "counted n word = str_of_nat n @ '' '' @ word @ (if 1 < n then ''s'' else [])"

definition briefing_summary :: "briefing \<Rightarrow> string" where
  "briefing_summary br =
     (let parts =
            (if br_check_ins_today br \<noteq> []
             then [counted (length (br_check_ins_today br)) ''check-in''] else [])
            @ (if br_check_outs_today br \<noteq> []
               then [counted (length (br_check_outs_today br)) ''checkout''] else [])
            @ (if br_turnovers_needed br \<noteq> []
               then [counted (length (br_turnovers_needed br)) ''turnover''] else [])
      in if parts \<noteq> []
         then ''Today: '' @ join_with '', '' parts @ ''. ''
                @ str_of_nat (length (br_actions br)) @ '' action items.''
         else if br_active_stays br \<noteq> []
         then ''Quiet day. '' @ str_of_nat (length (br_active_stays br)) @ '' active stays.''
         else ''All clear today.'')"

definition empty_briefing :: "date \<Rightarrow> briefing" where
  "empty_briefing today =
     \<lparr>br_date = isoformat today, br_actions = [], br_check_ins_today = [],
      br_check_outs_today = [], br_check_ins_tomorrow = [], br_active_stays = [],
      br_turnovers_needed = [], br_maintenance_urgent = [], br_vacant_tonight = [],
      br_occupancy_rate = 0, br_revenue_this_month = 0, br_summary = []\<rparr>"

text \<open>
  \<^verbatim>\<open>generate_daily_briefing(properties, bookings, maintenance_items, today)\<close>.
  \<^verbatim>\<open>list.sort\<close> is stable.
\<close>

definition generate_daily_briefing ::
  "property list \<Rightarrow> booking list \<Rightarrow> maintenance_item list \<Rightarrow> date \<Rightarrow> briefing" where
  "generate_daily_briefing properties bookings maintenance_items today =
     (let active_properties = filter (\<lambda>p. prop_status p = ''active'') properties
      in case foldl (briefing_step properties today) (empty_briefing today, []) bookings of
           (br, occupied) \<Rightarrow>
             let br1 = br\<lparr>br_vacant_tonight :=
                            br_vacant_tonight br
                            @ filter (\<lambda>p. prop_id p \<notin> set occupied) active_properties\<rparr>;
                 br2 = (if active_properties \<noteq> []
                        then br1\<lparr>br_occupancy_rate :=
                                    of_nat (length occupied) / of_nat (length active_properties)
                                      * 100\<rparr>
                        else br1);
                 br3 = foldl (maintenance_step properties) br2 maintenance_items;
                 br4 = br3\<lparr>br_actions := sort_key action_rank (br_actions br3)\<rparr>
             in br4\<lparr>br_summary := briefing_summary br4\<rparr>)"

section \<open>Example inputs\<close>

definition crlf_lines :: "string list \<Rightarrow> string" where
  "crlf_lines ls = concat (map (\<lambda>l. l @ [CHR 0x0D, CHR 0x0A]) ls)"

text \<open>
  A feed with a reservation of three nights, an owner block, and a reservation whose end
  is the day before its start.
\<close>

definition example_feed :: string where
  "example_feed = crlf_lines
     [''BEGIN:VCALENDAR'',
      ''BEGIN:VEVENT'', ''DTSTART;VALUE=DATE:20260315'', ''DTEND;VALUE=DATE:20260318'',
      ''SUMMARY:Reserved - John'', ''UID:abc'', ''END:VEVENT'',
      ''BEGIN:VEVENT'', ''DTSTART;VALUE=DATE:20260320'', ''DTEND;VALUE=DATE:20260322'',
      ''SUMMARY:Not available - Owner block'', ''END:VEVENT'',
      ''BEGIN:VEVENT'', ''DTSTART:20260402T120000Z'', ''DTEND:20260401T100000Z'',
      ''SUMMARY:Jane (HM123)'', ''END:VEVENT'',
      ''END:VCALENDAR'']"

text \<open>The first of March 2026, and identifiers numbered from zero.\<close>

definition example_today :: date where
  "example_today = ymd2ord 2026 3 1"

definition example_ids :: "nat \<Rightarrow> string" where
  "example_ids k = ''id'' @ str_of_nat k"



text \<open>The dictionary that the loop builds for the last event of \<open>example_feed\<close>.\<close>

definition inverted_event :: event where
  "inverted_event =
     [(''SUMMARY'', ''Jane (HM123)''), (''DTEND'', ''20260401T100000Z''),
      (''DTSTART'', ''20260402T120000Z'')]"

text \<open>
  A booking with the defaults of the \<^verbatim>\<open>Booking\<close> data class, given its identifier,
  property, dates, status and payout.
\<close>

definition mk_booking :: "string \<Rightarrow> string \<Rightarrow> string \<Rightarrow> string \<Rightarrow> string \<Rightarrow> rat \<Rightarrow> booking" where
  "mk_booking bid pid ci co st payout =
     \<lparr>booking_id = bid, property_id = pid, guest_name = ''Guest'', guest_phone = [],
      guest_email = [], num_guests = 2, check_in = ci, check_out = co, num_nights = 0,
      nightly_rate = 0, cleaning_fee = 0, total_payout = payout, platform = ''Airbnb'',
      platform_fee = 0, status = st, special_requests = [], guest_notes = [],
      turnover_status = ''pending'', cleaner_confirmed = False, rating_given = 0,
      ical_uid = [], created_date = []\<rparr>"

text \<open>
  A stay from the first to the fourth of March 2026, and the same nights booked a second
  time.
\<close>

definition march_stay :: booking where
  "march_stay = mk_booking ''bk_1'' ''p1'' ''2026-03-01'' ''2026-03-04'' ''confirmed'' 300"

definition march_stay_again :: booking where
  "march_stay_again = mk_booking ''bk_2'' ''p1'' ''2026-03-01'' ''2026-03-04'' ''confirmed'' 300"

text \<open>Two stays of one property, from the first to the third and from the sixth to the ninth of March 2026.\<close>

definition gap_first :: booking where
  "gap_first = mk_booking ''bk_a'' ''p1'' ''2026-03-01'' ''2026-03-03'' ''confirmed'' 200"

definition gap_second :: booking where
  "gap_second = mk_booking ''bk_b'' ''p1'' ''2026-03-06'' ''2026-03-09'' ''confirmed'' 300"

text \<open>
  A property without insurance or tax amounts, a stay of 2026 paid 100.25, and an expense of
  2026 of 50.125.
\<close>

definition example_property :: property where
  "example_property =
     \<lparr>prop_id = ''p1'', prop_name = ''Downtown Loft'', prop_nickname = ''Loft'',
      prop_status = ''active'', prop_check_in_time = ''3:00 PM'',
      prop_check_out_time = ''11:00 AM'', prop_address = ''456 Main St'',
      prop_insurance_annual = 0, prop_property_tax_annual = 0\<rparr>"

definition paid_stay :: booking where
  "paid_stay = mk_booking ''bk_p'' ''p1'' ''2026-01-10'' ''2026-01-12'' ''checked_out'' (401 / 4)"

definition half_cent_expense :: expense where
  "half_cent_expense =
     \<lparr>exp_property_id = ''p1'', exp_category = ''Other'', exp_amount = 401 / 8,
      exp_date = ''2026-02-01''\<rparr>"

definition whole_cent_expense :: expense where
  "whole_cent_expense =
     \<lparr>exp_property_id = ''p1'', exp_category = ''Cleaning'', exp_amount = 85,
      exp_date = ''2026-02-01''\<rparr>"


text \<open>
  A cancelled booking of the nights between the two stays above, and of the day that is
  today in the examples.
\<close>

definition cancelled_stay :: booking where
  "cancelled_stay = mk_booking ''bk_c'' ''p1'' ''2026-03-01'' ''2026-03-06'' ''cancelled'' 500"

text \<open>The same stay paid 100, a third of which is no whole number of cents.\<close>

definition odd_stay :: booking where
  "odd_stay = mk_booking ''bk_3'' ''p1'' ''2026-03-01'' ''2026-03-04'' ''confirmed'' 100"

section \<open>Properties of rounding\<close>

lemma rhe_floor_le: "\<lfloor>x\<rfloor> \<le> round_half_even x"
  by (simp add: round_half_even_def Let_def)

lemma rhe_le_floor_Suc: "round_half_even x \<le> \<lfloor>x\<rfloor> + 1"
  by (simp add: round_half_even_def Let_def)

lemma rhe_of_int: "round_half_even (of_int k) = k"
  by (simp add: round_half_even_def Let_def)

lemma rhe_lower:
  assumes "of_int k \<le> x"
  shows "k \<le> round_half_even x"
proof -
  from assms have "k \<le> \<lfloor>x\<rfloor>" by (simp add: le_floor_iff)
  with rhe_floor_le [of x] show ?thesis by simp
qed

lemma rhe_upper:
  assumes "x \<le> of_int k"
  shows "round_half_even x \<le> k"
proof (cases "x = of_int k")
  case True
  then show ?thesis by (simp add: rhe_of_int)
next
  case False
  with assms have "x < of_int k" by simp
  then have "\<lfloor>x\<rfloor> < k" by (simp add: floor_less_iff)
  with rhe_le_floor_Suc [of x] show ?thesis by simp
qed

lemma rhe_error: "\<bar>of_int (round_half_even x) - x\<bar> \<le> 1 / 2"
proof -
  define f where "f = \<lfloor>x\<rfloor>"
  have b: "of_int f \<le> x" "x < of_int f + 1"
    unfolding f_def by linarith+
  have "round_half_even x =
          (if x - of_int f < 1 / 2 then f else if 1 / 2 < x - of_int f then f + 1
           else if even f then f else f + 1)"
    by (simp add: round_half_even_def Let_def f_def)
  with b show ?thesis
    by (auto simp: abs_if split: if_splits)
qed

lemma py_round_nonneg: "0 \<le> x \<Longrightarrow> 0 \<le> py_round x n"
proof -
  assume "0 \<le> x"
  then have "of_int 0 \<le> x * 10 ^ n" by simp
  then have "0 \<le> round_half_even (x * 10 ^ n)" by (rule rhe_lower)
  then show ?thesis by (simp add: py_round_def)
qed

lemma py_round_upper: "x \<le> of_int k \<Longrightarrow> py_round x n \<le> of_int k"
proof -
  assume "x \<le> of_int k"
  then have "x * 10 ^ n \<le> of_int (k * 10 ^ n)" by simp
  then have "round_half_even (x * 10 ^ n) \<le> k * 10 ^ n" by (rule rhe_upper)
  then have "(of_int (round_half_even (x * 10 ^ n)) :: rat) \<le> of_int (k * 10 ^ n)"
    by (simp only: of_int_le_iff)
  then show ?thesis by (simp add: py_round_def divide_le_eq)
qed

lemma py_round_zero: "py_round 0 n = 0"
  by (simp add: py_round_def rhe_of_int [of 0, simplified])

lemma py_round_whole: "\<exists>k. py_round x n = of_int k / 10 ^ n"
  by (auto simp: py_round_def)

lemma py_round_error: "\<bar>py_round x n - x\<bar> \<le> 1 / (2 * 10 ^ n)"
proof -
  have "py_round x n - x = (of_int (round_half_even (x * 10 ^ n)) - x * 10 ^ n) / 10 ^ n"
    by (simp add: py_round_def diff_divide_distrib)
  then have "\<bar>py_round x n - x\<bar> = \<bar>of_int (round_half_even (x * 10 ^ n)) - x * 10 ^ n\<bar> / 10 ^ n"
    by (simp add: abs_divide)
  also have "\<dots> \<le> (1 / 2) / 10 ^ n"
    by (rule divide_right_mono [OF rhe_error]) simp
  finally show ?thesis by simp
qed

section \<open>Properties of the payout rule\<close>

text \<open>
  Claim C3. \<^verbatim>\<open>calculate_payout\<close> takes the gross amount \<open>rate * nights + clean\<close>,
  the platform fee \<open>gross * pct\<close> with \<open>pct\<close> three per cent unless given, and returns
  the net payout \<open>gross - fee\<close> and the fee, each rounded to cents: each amount returned
  is a whole number of cents and is within half a cent of the exact amount. For a rate of
  100, 3 nights, a cleaning fee of 50 and the rate of 0.03, the gross amount is 350, the
  fee 10.50 and the payout 339.50. A fee of a third of 1.00 is returned as 0.33 and the
  payout as 0.67; a fee and a payout of 0.125 are both returned as 0.12, the tie going to
  the even cent.
\<close>

theorem calculate_payout_rule:
  "(\<exists>k. fst (calculate_payout rate nights clean pct) = of_int k / 100)
   \<and> \<bar>fst (calculate_payout rate nights clean pct)
        - ((rate * of_int nights + clean) - (rate * of_int nights + clean) * pct)\<bar> \<le> 1 / 200
   \<and> (\<exists>k. snd (calculate_payout rate nights clean pct) = of_int k / 100)
   \<and> \<bar>snd (calculate_payout rate nights clean pct)
        - (rate * of_int nights + clean) * pct\<bar> \<le> 1 / 200
   \<and> calculate_payout rate nights clean pct =
     (py_round ((rate * of_int nights + clean) - (rate * of_int nights + clean) * pct) 2,
      py_round ((rate * of_int nights + clean) * pct) 2)
   \<and> default_pct = 3 / 100
   \<and> (100 :: rat) * of_int 3 + 50 = 350
   \<and> calculate_payout 100 3 50 default_pct = (339 + 1 / 2, 10 + 1 / 2)
   \<and> calculate_payout 1 1 0 (1 / 3) = (67 / 100, 33 / 100)
   \<and> calculate_payout (1 / 4) 1 0 (1 / 2) = (12 / 100, 12 / 100)"
proof -
  define g where "g = rate * of_int nights + clean"
  have general: "calculate_payout rate nights clean pct =
     (py_round (g - g * pct) 2, py_round (g * pct) 2)"
    by (simp add: calculate_payout_def Let_def g_def)
  have cents: "\<exists>k. py_round x 2 = of_int k / 100" for x
    using py_round_whole [of x 2] by simp
  have near: "\<bar>py_round x 2 - x\<bar> \<le> 1 / 200" for x
    using py_round_error [of x 2] by simp
  have example: "calculate_payout 100 3 50 default_pct = (339 + 1 / 2, 10 + 1 / 2)"
    by code_simp
  have third: "calculate_payout 1 1 0 (1 / 3) = (67 / 100, 33 / 100)"
    by code_simp
  have tie: "calculate_payout (1 / 4) 1 0 (1 / 2) = (12 / 100, 12 / 100)"
    by code_simp
  have gross: "(100 :: rat) * of_int 3 + 50 = 350"
    by simp
  have rate3: "default_pct = 3 / 100"
    by (simp add: default_pct_def)
  from general have fst_eq: "fst (calculate_payout rate nights clean pct) = py_round (g - g * pct) 2"
    and snd_eq: "snd (calculate_payout rate nights clean pct) = py_round (g * pct) 2"
    by simp_all
  show ?thesis
    unfolding fst_eq snd_eq
    using general cents [of "g - g * pct"] cents [of "g * pct"]
      near [of "g - g * pct"] near [of "g * pct"] example third tie gross rate3
    unfolding g_def by blast
qed

section \<open>Properties of the calendar import\<close>

subsection \<open>Deduplication\<close>

lemma existing_keys_fold:
  "foldl (\<lambda>ks b. insert (booking_key b) ks) K xs = K \<union> booking_key ` set xs"
  by (induction xs arbitrary: K) auto

lemma dedup_fold_spec:
  "set seen = K \<Longrightarrow>
   foldl dedup_step (K, u, d) new =
     (K \<union> booking_key ` set (spec_unique seen new), u @ spec_unique seen new,
      d + (length new - length (spec_unique seen new)))"
proof (induction new arbitrary: seen K u d)
  case Nil
  then show ?case by simp
next
  case (Cons b bs)
  have len: "length (spec_unique s bs) \<le> length bs" for s
    by (induction bs arbitrary: s) (auto simp: le_SucI)
  show ?case
  proof (cases "booking_key b \<in> K")
    case True
    with Cons.prems Cons.IH [of seen K u "d + 1"] len [of seen] show ?thesis
      by (simp add: dedup_step_def Suc_diff_le)
  next
    case False
    with Cons.prems Cons.IH [of "booking_key b # seen" "insert (booking_key b) K" "u @ [b]" d]
    show ?thesis
      by (simp add: dedup_step_def)
  qed
qed

lemma spec_unique_length: "length (spec_unique s bs) \<le> length bs"
  by (induction bs arbitrary: s) (auto simp: le_SucI)

lemma spec_unique_keys:
  "set seen \<union> booking_key ` set (spec_unique seen bs) = set seen \<union> booking_key ` set bs"
proof (induction bs arbitrary: seen)
  case Nil
  then show ?case by simp
next
  case (Cons b bs)
  show ?case
  proof (cases "booking_key b \<in> set seen")
    case True
    with Cons.IH [of seen] show ?thesis by auto
  next
    case False
    with Cons.IH [of "booking_key b # seen"] show ?thesis by auto
  qed
qed

lemma spec_unique_fresh:
  "booking_key ` set (spec_unique seen bs) \<inter> set seen = {}"
proof (induction bs arbitrary: seen)
  case Nil
  then show ?case by simp
next
  case (Cons b bs)
  from Cons.IH [of seen] Cons.IH [of "booking_key b # seen"] show ?case by auto
qed

lemma spec_unique_distinct: "distinct (map booking_key (spec_unique seen bs))"
proof (induction bs arbitrary: seen)
  case Nil
  then show ?case by simp
next
  case (Cons b bs)
  from spec_unique_fresh [of "booking_key b # seen" bs] Cons.IH show ?case by auto
qed

lemma spec_unique_covered:
  "booking_key ` set bs \<subseteq> set seen \<Longrightarrow> spec_unique seen bs = []"
  by (induction bs) auto

lemma deduplicate_spec:
  "deduplicate_ical_bookings existing new =
     (spec_unique (map booking_key existing) new,
      length new - length (spec_unique (map booking_key existing) new))"
  using dedup_fold_spec [of "map booking_key existing" "booking_key ` set existing" "[]" 0 new]
  by (simp add: deduplicate_ical_bookings_def existing_keys_fold)

subsection \<open>One event\<close>

lemma process_none:
  "process_ical_event ev pid plat r f t i = None \<longleftrightarrow>
     (parse_ical_date (event_get ev ''DTSTART'' []) = None
      \<or> parse_ical_date (event_get ev ''DTEND'' []) = None)"
  by (auto simp: process_ical_event_def Let_def split: option.splits prod.splits)

lemma process_blocked:
  "process_ical_event ev pid plat r f t i = Some (Blocked x) \<longleftrightarrow>
     (\<exists>ci co. parse_ical_date (event_get ev ''DTSTART'' []) = Some ci
        \<and> parse_ical_date (event_get ev ''DTEND'' []) = Some co
        \<and> is_blocked_summary (event_get ev ''SUMMARY'' [])
        \<and> x = \<lparr>blk_start = isoformat ci, blk_end = isoformat co,
                 blk_reason = event_get ev ''SUMMARY'' [], blk_property_id = pid\<rparr>)"
  by (auto simp: process_ical_event_def Let_def split: option.splits prod.splits)

lemma process_candidate:
  "process_ical_event ev pid plat r f t i = Some (Candidate b) \<Longrightarrow>
     (\<exists>ci co. parse_ical_date (event_get ev ''DTSTART'' []) = Some ci
        \<and> parse_ical_date (event_get ev ''DTEND'' []) = Some co
        \<and> \<not> is_blocked_summary (event_get ev ''SUMMARY'' [])
        \<and> booking_key b = (pid, isoformat ci, isoformat co)
        \<and> num_nights b = max (co - ci) 1
        \<and> nightly_rate b = r \<and> cleaning_fee b = f
        \<and> (total_payout b, platform_fee b) = calculate_payout r (num_nights b) f default_pct)"
  by (auto simp: process_ical_event_def Let_def booking_key_def split: option.splits prod.splits if_splits)

lemma process_candidate_ex:
  "parse_ical_date (event_get ev ''DTSTART'' []) = Some ci \<Longrightarrow>
   parse_ical_date (event_get ev ''DTEND'' []) = Some co \<Longrightarrow>
   \<not> is_blocked_summary (event_get ev ''SUMMARY'' []) \<Longrightarrow>
   \<exists>b. process_ical_event ev pid plat r f t i = Some (Candidate b)"
  by (auto simp: process_ical_event_def Let_def split: option.splits prod.splits)

lemma process_two_runs:
  "(process_ical_event ev pid plat r f t1 i1 = None \<and> process_ical_event ev pid plat r f t2 i2 = None)
   \<or> (\<exists>x. process_ical_event ev pid plat r f t1 i1 = Some (Blocked x)
          \<and> process_ical_event ev pid plat r f t2 i2 = Some (Blocked x))
   \<or> (\<exists>b1 b2. process_ical_event ev pid plat r f t1 i1 = Some (Candidate b1)
          \<and> process_ical_event ev pid plat r f t2 i2 = Some (Candidate b2)
          \<and> booking_key b1 = booking_key b2)"
  by (auto simp: process_ical_event_def Let_def booking_key_def split: option.splits prod.splits)

lemma ical_line_two_runs:
  assumes "map booking_key bs1 = map booking_key bs2"
  shows "\<exists>ie' ev' bs1' bs2' bl'.
           ical_line pid plat r f t1 i1 (ie, ev, bs1, bl) raw = (ie', ev', bs1', bl')
         \<and> ical_line pid plat r f t2 i2 (ie, ev, bs2, bl) raw = (ie', ev', bs2', bl')
         \<and> map booking_key bs1' = map booking_key bs2'"
proof -
  from assms have len: "length bs1 = length bs2" by (rule map_eq_imp_length_eq)
  from process_two_runs [of ev pid plat r f t1 "i1 (length bs1)" t2 "i2 (length bs2)"] assms
  show ?thesis
    by (auto simp: ical_line_def Let_def split: prod.splits)
qed

lemma ical_fold_two_runs:
  assumes "map booking_key bs1 = map booking_key bs2"
  shows "\<exists>ie' ev' bs1' bs2' bl'.
           foldl (ical_line pid plat r f t1 i1) (ie, ev, bs1, bl) ls = (ie', ev', bs1', bl')
         \<and> foldl (ical_line pid plat r f t2 i2) (ie, ev, bs2, bl) ls = (ie', ev', bs2', bl')
         \<and> map booking_key bs1' = map booking_key bs2'"
  using assms
proof (induction ls arbitrary: ie ev bs1 bs2 bl)
  case Nil
  then show ?case by simp
next
  case (Cons l ls)
  from ical_line_two_runs [OF Cons.prems, of pid plat r f t1 i1 ie ev bl l t2 i2]
  obtain ie' ev' bs1' bs2' bl' where
    s1: "ical_line pid plat r f t1 i1 (ie, ev, bs1, bl) l = (ie', ev', bs1', bl')" and
    s2: "ical_line pid plat r f t2 i2 (ie, ev, bs2, bl) l = (ie', ev', bs2', bl')" and
    k: "map booking_key bs1' = map booking_key bs2'"
    by blast
  from Cons.IH [OF k, of ie' ev' bl'] s1 s2 show ?case by simp
qed

lemma parse_ical_two_runs:
  "map booking_key (fst (parse_ical feed pid plat r f t1 i1))
     = map booking_key (fst (parse_ical feed pid plat r f t2 i2))"
proof -
  have e: "map booking_key ([] :: booking list) = map booking_key []" by simp
  from ical_fold_two_runs [OF e, of pid plat r f t1 i1 False "[]" "[]" "ical_lines feed" t2 i2]
  show ?thesis
    by (auto simp: parse_ical_def)
qed

lemma dedup_all_known:
  "booking_key ` set new \<subseteq> booking_key ` set existing \<Longrightarrow>
   deduplicate_ical_bookings existing new = ([], length new)"
  by (simp add: deduplicate_spec spec_unique_covered)

text \<open>
  Claim C1. Reconciliation is idempotent. Parse a feed and deduplicate its bookings against
  a ledger; add the bookings kept to the ledger; parse the same feed again (the day and the
  identifiers drawn may differ) and deduplicate against the extended ledger. The second run
  keeps no booking, and the number of duplicates it reports is the number of bookings
  parsed. The bookings the first run keeps are those that the specification's rule keeps:
  a booking is dropped exactly when its \<^verbatim>\<open>(property_id, check_in, check_out)\<close> is
  that of a ledger booking or of a booking kept earlier in the batch; so the keys kept are
  distinct and none is a key of the ledger.
\<close>

theorem reconciliation_idempotent:
  "(let new1 = fst (parse_ical feed pid plat rate fee today1 ids1);
        (unique1, dupes1) = deduplicate_ical_bookings ledger new1;
        new2 = fst (parse_ical feed pid plat rate fee today2 ids2);
        (unique2, dupes2) = deduplicate_ical_bookings (ledger @ unique1) new2
    in unique2 = [] \<and> dupes2 = length new2 \<and> length new2 = length new1
       \<and> unique1 = spec_unique (map booking_key ledger) new1
       \<and> dupes1 = length new1 - length unique1
       \<and> distinct (map booking_key unique1)
       \<and> booking_key ` set unique1 \<inter> booking_key ` set ledger = {})"
proof -
  define new1 where "new1 = fst (parse_ical feed pid plat rate fee today1 ids1)"
  define new2 where "new2 = fst (parse_ical feed pid plat rate fee today2 ids2)"
  define unique1 where "unique1 = spec_unique (map booking_key ledger) new1"
  have keys: "map booking_key new2 = map booking_key new1"
    unfolding new1_def new2_def by (rule parse_ical_two_runs)
  have d1: "deduplicate_ical_bookings ledger new1 = (unique1, length new1 - length unique1)"
    unfolding unique1_def by (rule deduplicate_spec)
  have "booking_key ` set new2 = booking_key ` set new1"
    using keys by (metis image_set)
  also have "\<dots> \<subseteq> booking_key ` set (ledger @ unique1)"
    using spec_unique_keys [of "map booking_key ledger" new1] unfolding unique1_def by auto
  finally have d2: "deduplicate_ical_bookings (ledger @ unique1) new2 = ([], length new2)"
    by (rule dedup_all_known)
  have len: "length new2 = length new1"
    using keys by (rule map_eq_imp_length_eq)
  have dist: "distinct (map booking_key unique1)"
    unfolding unique1_def by (rule spec_unique_distinct)
  have fresh: "booking_key ` set unique1 \<inter> booking_key ` set ledger = {}"
    using spec_unique_fresh [of "map booking_key ledger" new1] unfolding unique1_def by simp
  show ?thesis
    using d1 d2 len dist fresh
    by (simp add: Let_def new1_def [symmetric] new2_def [symmetric] unique1_def [symmetric])
qed

lemma example_feed_bookings:
  "length (fst (parse_ical example_feed ''p1'' ''Airbnb'' 150 75 example_today example_ids)) = 2"
  by code_simp

theorem reconciliation_idempotent_witness:
  "deduplicate_ical_bookings
     ([] @ fst (deduplicate_ical_bookings []
             (fst (parse_ical example_feed ''p1'' ''Airbnb'' 150 75 example_today example_ids))))
     (fst (parse_ical example_feed ''p1'' ''Airbnb'' 150 75 example_today example_ids))
   = ([], 2)"
  using reconciliation_idempotent [of example_feed "''p1''" "''Airbnb''" 150 75 example_today
          example_ids "[]" example_today example_ids] example_feed_bookings
  by (simp add: Let_def split: prod.splits)

subsection \<open>The loop over the lines and the events of a feed\<close>

lemma event_fold_append:
  "foldl event_line (ie, ev, evs0 @ evs) ls =
     (case foldl event_line (ie, ev, evs) ls of (ie', ev', evs') \<Rightarrow> (ie', ev', evs0 @ evs'))"
proof (induction ls arbitrary: ie ev evs)
  case Nil
  then show ?case by simp
next
  case (Cons l ls)
  obtain ie1 ev1 evs1 where s: "event_line (ie, ev, evs) l = (ie1, ev1, evs1)"
    by (cases "event_line (ie, ev, evs) l") blast
  then have "event_line (ie, ev, evs0 @ evs) l = (ie1, ev1, evs0 @ evs1)"
    by (auto simp: event_line_def Let_def split: if_splits prod.splits)
  with s Cons.IH [of ie1 ev1 evs1] show ?case by simp
qed

lemma event_line_cases:
  "event_line (ie, ev, []) l = (ie', ev', evs) \<Longrightarrow>
     (evs = [] \<and> ical_line pid plat r f t ids (ie, ev, bs, bl) l = (ie', ev', bs, bl))
   \<or> (evs = [ev] \<and> ev \<noteq> [] \<and>
       ical_line pid plat r f t ids (ie, ev, bs, bl) l =
         (ie', ev', fst (classify_event pid plat r f t ids (bs, bl) ev),
                   snd (classify_event pid plat r f t ids (bs, bl) ev)))"
  by (auto simp: event_line_def ical_line_def classify_event_def Let_def
           split: if_splits prod.splits option.splits ical_item.splits)


lemma ical_fold_events:
  "foldl (ical_line pid plat r f t ids) (ie, ev, bs, bl) ls =
     (case foldl event_line (ie, ev, []) ls of
        (ie', ev', evs) \<Rightarrow>
          (case foldl (classify_event pid plat r f t ids) (bs, bl) evs of
             (bs', bl') \<Rightarrow> (ie', ev', bs', bl')))"
proof (induction ls arbitrary: ie ev bs bl)
  case Nil
  then show ?case by simp
next
  case (Cons l ls)
  obtain ie1 ev1 evs1 where s: "event_line (ie, ev, []) l = (ie1, ev1, evs1)"
    by (cases "event_line (ie, ev, []) l") blast
  obtain ie2 ev2 evs2 where r: "foldl event_line (ie1, ev1, []) ls = (ie2, ev2, evs2)"
    by (cases "foldl event_line (ie1, ev1, []) ls") blast
  from event_fold_append [of ie1 ev1 evs1 "[]" ls] r
  have whole: "foldl event_line (ie1, ev1, evs1) ls = (ie2, ev2, evs1 @ evs2)"
    by simp
  from event_line_cases [OF s, of pid plat r f t ids bs bl]
  show ?case
  proof
    assume a: "evs1 = [] \<and> ical_line pid plat r f t ids (ie, ev, bs, bl) l = (ie1, ev1, bs, bl)"
    with s r whole Cons.IH [of ie1 ev1 bs bl] show ?thesis by simp
  next
    assume a: "evs1 = [ev] \<and> ev \<noteq> [] \<and>
       ical_line pid plat r f t ids (ie, ev, bs, bl) l =
         (ie1, ev1, fst (classify_event pid plat r f t ids (bs, bl) ev),
                   snd (classify_event pid plat r f t ids (bs, bl) ev))"
    with s r whole
      Cons.IH [of ie1 ev1 "fst (classify_event pid plat r f t ids (bs, bl) ev)"
                 "snd (classify_event pid plat r f t ids (bs, bl) ev)"]
    show ?thesis by simp
  qed
qed

lemma parse_ical_events:
  "parse_ical text pid plat r f t ids =
     foldl (classify_event pid plat r f t ids) ([], []) (feed_events text)"
  by (simp add: parse_ical_def feed_events_def ical_fold_events split: prod.splits)

lemma classify_fold_bookings:
  "foldl (classify_event pid plat r f t ids) (bs, bl) evs = (bs', bl') \<Longrightarrow> b \<in> set bs' \<Longrightarrow>
     b \<in> set bs \<or> (\<exists>ev \<in> set evs. \<exists>k. process_ical_event ev pid plat r f t (ids k) = Some (Candidate b))"
proof (induction evs arbitrary: bs bl)
  case Nil
  then show ?case by simp
next
  case (Cons ev evs)
  obtain bs1 bl1 where s: "classify_event pid plat r f t ids (bs, bl) ev = (bs1, bl1)"
    by (cases "classify_event pid plat r f t ids (bs, bl) ev") blast
  with Cons.prems have "foldl (classify_event pid plat r f t ids) (bs1, bl1) evs = (bs', bl')"
    by simp
  from Cons.IH [OF this Cons.prems(2)]
  have "b \<in> set bs1 \<or> (\<exists>ev \<in> set evs. \<exists>k. process_ical_event ev pid plat r f t (ids k) = Some (Candidate b))" .
  moreover have "b \<in> set bs1 \<Longrightarrow>
    b \<in> set bs \<or> (\<exists>k. process_ical_event ev pid plat r f t (ids k) = Some (Candidate b))"
    using s by (auto simp: classify_event_def split: option.splits ical_item.splits)
  ultimately show ?case by auto
qed


lemma classify_fold_grows:
  "foldl (classify_event pid plat r f t ids) (bs, bl) evs = (bs', bl') \<Longrightarrow> set bs \<subseteq> set bs'"
proof (induction evs arbitrary: bs bl)
  case Nil
  then show ?case by simp
next
  case (Cons ev evs)
  obtain bs1 bl1 where s: "classify_event pid plat r f t ids (bs, bl) ev = (bs1, bl1)"
    by (cases "classify_event pid plat r f t ids (bs, bl) ev") blast
  with Cons.prems have "foldl (classify_event pid plat r f t ids) (bs1, bl1) evs = (bs', bl')"
    by simp
  from Cons.IH [OF this] have "set bs1 \<subseteq> set bs'" .
  moreover have "set bs \<subseteq> set bs1"
    using s by (auto simp: classify_event_def split: option.splits ical_item.splits)
  ultimately show ?case by blast
qed

lemma classify_fold_has:
  "foldl (classify_event pid plat r f t ids) (bs, bl) evs = (bs', bl') \<Longrightarrow> ev \<in> set evs \<Longrightarrow>
   event_start ev = Some ci \<Longrightarrow> event_end ev = Some co \<Longrightarrow>
   \<not> is_blocked_summary (event_summary ev) \<Longrightarrow>
   \<exists>b \<in> set bs'. \<exists>k. process_ical_event ev pid plat r f t (ids k) = Some (Candidate b)"
proof (induction evs arbitrary: bs bl)
  case Nil
  then show ?case by simp
next
  case (Cons e evs)
  obtain bs1 bl1 where s: "classify_event pid plat r f t ids (bs, bl) e = (bs1, bl1)"
    by (cases "classify_event pid plat r f t ids (bs, bl) e") blast
  with Cons.prems(1) have rest: "foldl (classify_event pid plat r f t ids) (bs1, bl1) evs = (bs', bl')"
    by simp
  show ?case
  proof (cases "ev = e")
    case True
    from process_candidate_ex [of ev ci co pid plat r f t "ids (length bs)"] Cons.prems(3,4,5)
    obtain b where b: "process_ical_event ev pid plat r f t (ids (length bs)) = Some (Candidate b)"
      by (auto simp: event_start_def event_end_def event_summary_def)
    with s True have "b \<in> set bs1" by (auto simp: classify_event_def)
    with classify_fold_grows [OF rest] have "b \<in> set bs'" by blast
    with b show ?thesis by blast
  next
    case False
    with Cons.prems(2) have "ev \<in> set evs" by simp
    from Cons.IH [OF rest this Cons.prems(3,4,5)] show ?thesis .
  qed
qed




subsection \<open>Blocked intervals and bookings\<close>




text \<open>
  Claim C10. Every booking that \<^verbatim>\<open>parse_ical\<close> returns has at least one night, the
  default rate and cleaning fee, and the payout and platform fee that
  \<^verbatim>\<open>calculate_payout\<close> gives for its number of nights. An event of the feed that is
  no blocked interval and whose end date is not after its start date is not dropped: it
  gives a booking of one night, with the payout and fee of one night.
\<close>

theorem imported_nights_at_least_one:
  "(\<forall>b \<in> set (fst (parse_ical text pid plat rate fee today ids)).
       1 \<le> num_nights b \<and> nightly_rate b = rate \<and> cleaning_fee b = fee
       \<and> (total_payout b, platform_fee b) = calculate_payout rate (num_nights b) fee default_pct)
   \<and> (\<forall>ev \<in> set (feed_events text). \<forall>ci co.
         event_start ev = Some ci \<and> event_end ev = Some co \<and> co \<le> ci
         \<and> \<not> is_blocked_summary (event_summary ev) \<longrightarrow>
         (\<exists>b \<in> set (fst (parse_ical text pid plat rate fee today ids)).
            booking_key b = (pid, isoformat ci, isoformat co) \<and> num_nights b = 1
            \<and> (total_payout b, platform_fee b) = calculate_payout rate 1 fee default_pct))"
proof -
  obtain bs bl where res: "parse_ical text pid plat rate fee today ids = (bs, bl)"
    by (cases "parse_ical text pid plat rate fee today ids") blast
  then have fold: "foldl (classify_event pid plat rate fee today ids) ([], []) (feed_events text) = (bs, bl)"
    by (simp add: parse_ical_events)
  have every: "1 \<le> num_nights b \<and> nightly_rate b = rate \<and> cleaning_fee b = fee
       \<and> (total_payout b, platform_fee b) = calculate_payout rate (num_nights b) fee default_pct"
    if "b \<in> set bs" for b
  proof -
    from classify_fold_bookings [OF fold that]
    obtain ev k where "process_ical_event ev pid plat rate fee today (ids k) = Some (Candidate b)"
      by auto
    from process_candidate [OF this] show ?thesis by auto
  qed
  have clamp: "\<exists>b \<in> set bs. booking_key b = (pid, isoformat ci, isoformat co) \<and> num_nights b = 1
            \<and> (total_payout b, platform_fee b) = calculate_payout rate 1 fee default_pct"
    if "ev \<in> set (feed_events text)" "event_start ev = Some ci" "event_end ev = Some co" "co \<le> ci"
       "\<not> is_blocked_summary (event_summary ev)" for ev ci co
  proof -
    from classify_fold_has [OF fold that(1,2,3,5)]
    obtain b k where b: "b \<in> set bs"
      and p: "process_ical_event ev pid plat rate fee today (ids k) = Some (Candidate b)"
      by blast
    from process_candidate [OF p] that(2,3,4)
    have "booking_key b = (pid, isoformat ci, isoformat co) \<and> num_nights b = 1
            \<and> (total_payout b, platform_fee b) = calculate_payout rate 1 fee default_pct"
      by (auto simp: event_start_def event_end_def)
    with b show ?thesis by blast
  qed
  show ?thesis
    using every clamp by (simp add: res)
qed


lemma inverted_event_facts:
  "inverted_event \<in> set (feed_events example_feed)"
  "\<not> is_blocked_summary (event_summary inverted_event)"
  "event_start inverted_event = Some (ymd2ord 2026 4 2)"
  "event_end inverted_event = Some (ymd2ord 2026 4 1)"
  "ymd2ord 2026 4 1 \<le> ymd2ord 2026 4 2"
  "isoformat (ymd2ord 2026 4 2) = ''2026-04-02''"
  "isoformat (ymd2ord 2026 4 1) = ''2026-04-01''"
  "calculate_payout 150 1 75 default_pct = (873 / 4, 27 / 4)"
  by code_simp+

theorem imported_nights_at_least_one_witness:
  "\<exists>b \<in> set (fst (parse_ical example_feed ''p1'' ''Airbnb'' 150 75 example_today example_ids)).
      booking_key b = (''p1'', ''2026-04-02'', ''2026-04-01'') \<and> num_nights b = 1
      \<and> (total_payout b, platform_fee b) = (873 / 4, 27 / 4)"
  using imported_nights_at_least_one [of example_feed "''p1''" "''Airbnb''" 150 75
          example_today example_ids] inverted_event_facts
  by (metis (no_types, lifting))

section \<open>Properties of the revenue and occupancy aggregation\<close>

lemma shared_nights_eq:
  "shared_nights s e b_in b_out = max (min b_out e - max b_in s) 0"
proof -
  have "{b_in..<b_out} \<inter> {s..<e} = {max b_in s..<min b_out e}"
    by auto
  moreover have "int (card {a..<b}) = max (b - a) 0" for a b :: int
    by (simp add: max_def)
  ultimately show ?thesis
    by (simp only: shared_nights_def)
qed

lemma shared_nights_le_stay:
  "0 < shared_nights s e b_in b_out \<Longrightarrow> shared_nights s e b_in b_out \<le> b_out - b_in"
  unfolding shared_nights_eq max_def min_def by (auto split: if_splits)

lemma shared_nights_nonneg: "0 \<le> shared_nights s e b_in b_out"
  by (simp add: shared_nights_def)

lemma metrics_step_dated:
  "parse_date (check_in b) = Some b_in \<Longrightarrow> parse_date (check_out b) = Some b_out \<Longrightarrow>
   metrics_step s e (r, n, rs) b =
     (if 0 < shared_nights s e b_in b_out
      then (r + total_payout b
                  * (of_int (shared_nights s e b_in b_out) / of_int (max (b_out - b_in) 1)),
            n + shared_nights s e b_in b_out,
            if 0 < rating_given b then rs @ [rating_given b] else rs)
      else (r, n, if 0 < rating_given b then rs @ [rating_given b] else rs))"
  by (simp add: metrics_step_def shared_nights_eq Let_def)

lemma metrics_step_spec:
  assumes "parse_date (check_in b) = Some b_in" "parse_date (check_out b) = Some b_out"
  shows "metrics_step s e (r, n, rs) b =
     (r + spec_prorated (total_payout b) (shared_nights s e b_in b_out) (b_out - b_in),
      n + shared_nights s e b_in b_out,
      if 0 < rating_given b then rs @ [rating_given b] else rs)"
proof (cases "0 < shared_nights s e b_in b_out")
  case True
  with shared_nights_le_stay [OF True] have stay: "0 < b_out - b_in" by simp
  then have "max (b_out - b_in) 1 = b_out - b_in" by simp
  with True stay show ?thesis
    by (simp only: metrics_step_dated [OF assms] spec_prorated_def) simp
next
  case False
  with shared_nights_nonneg [of s e b_in b_out] have "shared_nights s e b_in b_out = 0"
    by simp
  then show ?thesis
    by (simp add: metrics_step_dated [OF assms] spec_prorated_def)
qed

lemma metrics_step_skip:
  "parse_date (check_in b) = None \<or> parse_date (check_out b) = None \<Longrightarrow>
   metrics_step s e st b = st"
  by (auto simp: metrics_step_def split: prod.splits option.splits)

lemma metrics_fold_spec:
  "\<exists>rs'. foldl (metrics_step s e) (r, n, rs) bs =
     (r + sum_list (map (\<lambda>(b, b_in, b_out).
                      spec_prorated (total_payout b) (shared_nights s e b_in b_out) (b_out - b_in))
                 (List.map_filter dated bs)),
      n + sum_list (map (\<lambda>(b, b_in, b_out). shared_nights s e b_in b_out) (List.map_filter dated bs)),
      rs')"
proof (induction bs arbitrary: r n rs)
  case Nil
  then show ?case by (simp add: map_filter_simps)
next
  case (Cons b bs)
  show ?case
  proof (cases "dated b")
    case None
    then have "metrics_step s e (r, n, rs) b = (r, n, rs)"
      by (intro metrics_step_skip) (auto simp: dated_def split: option.splits)
    with None Cons.IH [of r n rs] show ?thesis
      by (simp add: map_filter_simps)
  next
    case (Some t)
    then obtain b_in b_out where t: "t = (b, b_in, b_out)"
      and p: "parse_date (check_in b) = Some b_in" "parse_date (check_out b) = Some b_out"
      by (auto simp: dated_def split: option.splits)
    from metrics_step_spec [OF p, of s e r n rs] Some t
      Cons.IH [of "r + spec_prorated (total_payout b) (shared_nights s e b_in b_out) (b_out - b_in)"
                  "n + shared_nights s e b_in b_out"
                  "if 0 < rating_given b then rs @ [rating_given b] else rs"]
    show ?thesis
      by (auto simp: map_filter_simps add.assoc)
  qed
qed

lemma counted_bookings_dated:
  "counted_bookings bookings pid =
     List.map_filter dated (filter (\<lambda>b. property_id b = pid \<and> status b \<noteq> ''cancelled'') bookings)"
  by (simp add: counted_bookings_def)

lemma metrics_totals:
  "total_nights_booked (calculate_property_metrics bookings pid (Some s) (Some e) today)
     = spec_nights bookings pid s e"
  "total_revenue (calculate_property_metrics bookings pid (Some s) (Some e) today)
     = py_round (spec_revenue bookings pid s e) 2"
  "occupancy_rate (calculate_property_metrics bookings pid (Some s) (Some e) today)
     = py_round (of_int (spec_nights bookings pid s e) / of_int (max (e - s) 1) * 100) 1"
  "avg_nightly_rate (calculate_property_metrics bookings pid (Some s) (Some e) today)
     = (if spec_nights bookings pid s e = 0 then py_round 0 2
        else py_round (spec_revenue bookings pid s e / of_int (spec_nights bookings pid s e)) 2)"
  using metrics_fold_spec [of s e 0 0 "[]"
          "filter (\<lambda>b. property_id b = pid \<and> status b \<noteq> ''cancelled'') bookings"]
  by (auto simp: calculate_property_metrics_def Let_def spec_nights_def spec_revenue_def
        counted_bookings_dated)

subsection \<open>Stays that share no night\<close>

lemma stays_overlap_sets:
  "\<not> stays_overlap (i, o1) (j, o2) \<longleftrightarrow> {i..<o1} \<inter> {j..<o2} = {}"
proof -
  have "{i..<o1} \<inter> {j..<o2} = {max i j..<min o1 o2}" by auto
  then show ?thesis by (simp add: stays_overlap_def)
qed

lemma disjoint_stays_sum:
  assumes "disjoint_stays ss"
  shows "sum_list (map (\<lambda>(i, o1). shared_nights s e i o1) ss)
           = int (card ((\<Union>(i, o1) \<in> set ss. {i..<o1}) \<inter> {s..<e}))"
  using assms
proof (induction ss)
  case Nil
  then show ?case by simp
next
  case (Cons t ss)
  obtain i o1 where t: "t = (i, o1)" by (cases t)
  let ?U = "\<Union>(j, o2) \<in> set ss. {j..<o2}"
  have apart: "{i..<o1} \<inter> {j..<o2} = {}" if "(j, o2) \<in> set ss" for j o2
  proof -
    from Cons.prems t that have "\<not> stays_overlap (i, o1) (j, o2)"
      by (auto simp: list_all_iff)
    then show ?thesis by (simp only: stays_overlap_sets)
  qed
  then have "({i..<o1} \<inter> {s..<e}) \<inter> (?U \<inter> {s..<e}) = {}"
    by blast
  moreover have "finite ({i..<o1} \<inter> {s..<e})" "finite (?U \<inter> {s..<e})"
    by simp_all
  ultimately have "card (({i..<o1} \<inter> {s..<e}) \<union> (?U \<inter> {s..<e}))
      = card ({i..<o1} \<inter> {s..<e}) + card (?U \<inter> {s..<e})"
    by (rule card_Un_disjoint [OF _ _, rotated 2])
  moreover have "(\<Union>(j, o2) \<in> set (t # ss). {j..<o2}) \<inter> {s..<e}
      = ({i..<o1} \<inter> {s..<e}) \<union> (?U \<inter> {s..<e})"
    using t by auto
  moreover from Cons.prems Cons.IH
  have "sum_list (map (\<lambda>(i, o1). shared_nights s e i o1) ss) = int (card (?U \<inter> {s..<e}))"
    by simp
  ultimately show ?case
    using t by (simp add: shared_nights_def)
qed

lemma disjoint_stays_bound:
  assumes "disjoint_stays ss"
  shows "sum_list (map (\<lambda>(i, o1). shared_nights s e i o1) ss) \<le> max (e - s) 0"
proof -
  have "card ((\<Union>(i, o1) \<in> set ss. {i..<o1}) \<inter> {s..<e}) \<le> card {s..<e}"
    by (rule card_mono) auto
  also have "int (card {s..<e}) = max (e - s) 0"
    by (simp add: max_def)
  finally show ?thesis
    using disjoint_stays_sum [OF assms, of s e] by simp
qed

lemma spec_nights_stays:
  "spec_nights bookings pid s e =
     sum_list (map (\<lambda>(i, o1). shared_nights s e i o1) (map snd (counted_bookings bookings pid)))"
  by (simp add: spec_nights_def comp_def case_prod_unfold)

lemma spec_nights_nonneg: "0 \<le> spec_nights bookings pid s e"
  unfolding spec_nights_def
  by (rule sum_list_nonneg) (auto simp: shared_nights_nonneg)

subsection \<open>Proration\<close>

lemma march_dates:
  "parse_date ''2026-03-01'' = Some (ymd2ord 2026 3 1)"
  "parse_date ''2026-03-04'' = Some (ymd2ord 2026 3 4)"
  "ymd2ord 2026 3 1 = 739676" "ymd2ord 2026 3 2 = 739677"
  "ymd2ord 2026 3 3 = 739678" "ymd2ord 2026 3 4 = 739679"
  by code_simp+

lemma march_example:
  "counted_bookings [mk_booking bid pid ''2026-03-01'' ''2026-03-04'' ''confirmed'' payout] pid
     = [(mk_booking bid pid ''2026-03-01'' ''2026-03-04'' ''confirmed'' payout,
         ymd2ord 2026 3 1, ymd2ord 2026 3 4)]"
  by (simp add: counted_bookings_def dated_def mk_booking_def march_dates(1,2) map_filter_simps)

text \<open>
  Claim C4. Over a window \<open>[s, e)\<close>, \<^verbatim>\<open>calculate_property_metrics\<close> counts for each
  booking of the property that is not cancelled the nights that lie both in its stay and
  in the window, and adds, as revenue, its payout times those nights over the nights of
  its stay; a booking whose stay has no night adds nothing (the division is guarded). The
  revenue returned is that sum rounded to cents. A booking from 2026-03-01 to 2026-03-04
  measured over the window from 2026-03-02 to 2026-03-03 gives one night and a third of
  its payout, rounded to cents: a whole number of cents within half a cent of the third.
\<close>

theorem metrics_prorate:
  "total_nights_booked (calculate_property_metrics bookings pid (Some s) (Some e) today)
     = spec_nights bookings pid s e
   \<and> total_revenue (calculate_property_metrics bookings pid (Some s) (Some e) today)
     = py_round (spec_revenue bookings pid s e) 2
   \<and> spec_prorated payout shared 0 = 0
   \<and> total_nights_booked
       (calculate_property_metrics
          [mk_booking bid pid ''2026-03-01'' ''2026-03-04'' ''confirmed'' payout] pid
          (Some (ymd2ord 2026 3 2)) (Some (ymd2ord 2026 3 3)) today) = 1
   \<and> total_revenue
       (calculate_property_metrics
          [mk_booking bid pid ''2026-03-01'' ''2026-03-04'' ''confirmed'' payout] pid
          (Some (ymd2ord 2026 3 2)) (Some (ymd2ord 2026 3 3)) today)
     = py_round (payout / 3) 2
   \<and> (\<exists>k. total_revenue
       (calculate_property_metrics
          [mk_booking bid pid ''2026-03-01'' ''2026-03-04'' ''confirmed'' payout] pid
          (Some (ymd2ord 2026 3 2)) (Some (ymd2ord 2026 3 3)) today) = of_int k / 100)
   \<and> \<bar>total_revenue
       (calculate_property_metrics
          [mk_booking bid pid ''2026-03-01'' ''2026-03-04'' ''confirmed'' payout] pid
          (Some (ymd2ord 2026 3 2)) (Some (ymd2ord 2026 3 3)) today) - payout / 3\<bar> \<le> 1 / 200"
proof -
  have nights: "shared_nights (ymd2ord 2026 3 2) (ymd2ord 2026 3 3) (ymd2ord 2026 3 1) (ymd2ord 2026 3 4) = 1"
    by (simp add: shared_nights_eq march_dates)
  have stay: "ymd2ord 2026 3 4 - ymd2ord 2026 3 1 = 3"
    by (simp add: march_dates)
  have n1: "spec_nights [mk_booking bid pid ''2026-03-01'' ''2026-03-04'' ''confirmed'' payout] pid
          (ymd2ord 2026 3 2) (ymd2ord 2026 3 3) = 1"
    by (simp add: spec_nights_def march_example nights)
  have r1: "spec_revenue [mk_booking bid pid ''2026-03-01'' ''2026-03-04'' ''confirmed'' payout] pid
          (ymd2ord 2026 3 2) (ymd2ord 2026 3 3) = payout / 3"
  proof -
    have "total_payout (mk_booking bid pid ''2026-03-01'' ''2026-03-04'' ''confirmed'' payout) = payout"
      by (simp add: mk_booking_def)
    then show ?thesis
      using nights by (simp add: spec_revenue_def march_example spec_prorated_def march_dates(3-6))
  qed
  have z: "spec_prorated payout shared 0 = 0"
    by (simp add: spec_prorated_def)
  have cents: "\<exists>k. py_round (payout / 3) 2 = of_int k / 100"
    using py_round_whole [of "payout / 3" 2] by simp
  have near: "\<bar>py_round (payout / 3) 2 - payout / 3\<bar> \<le> 1 / 200"
    using py_round_error [of "payout / 3" 2] by simp
  show ?thesis
    unfolding metrics_totals n1 r1 using z cents near by simp
qed

theorem metrics_prorate_witness:
  "total_nights_booked
     (calculate_property_metrics [march_stay] ''p1''
        (Some (ymd2ord 2026 3 2)) (Some (ymd2ord 2026 3 3)) example_today) = 1
   \<and> total_revenue
     (calculate_property_metrics [march_stay] ''p1''
        (Some (ymd2ord 2026 3 2)) (Some (ymd2ord 2026 3 3)) example_today) = 100
   \<and> total_revenue
     (calculate_property_metrics [odd_stay] ''p1''
        (Some (ymd2ord 2026 3 2)) (Some (ymd2ord 2026 3 3)) example_today) = 3333 / 100"
proof -
  have "py_round (300 / 3) 2 = 100" "py_round (100 / 3) 2 = 3333 / 100" by code_simp+
  with metrics_prorate [of "[march_stay]" "''p1''" "ymd2ord 2026 3 2" "ymd2ord 2026 3 3"
         example_today 300 0 "''bk_1''"]
    metrics_prorate [of "[odd_stay]" "''p1''" "ymd2ord 2026 3 2" "ymd2ord 2026 3 3"
         example_today 100 0 "''bk_3''"]
  show ?thesis by (simp add: march_stay_def odd_stay_def)
qed

subsection \<open>Occupancy and average rate\<close>

text \<open>
  Claim C5 says that the occupancy rate always lies within [0, 100]. The code does not
  clamp it: the nights of every counted booking are added, so nights booked twice are
  counted twice. Two bookings of the same three nights, measured over those three nights,
  give an occupancy rate of 200.
\<close>

theorem occupancy_double_booked:
  "occupancy_rate
     (calculate_property_metrics [march_stay, march_stay_again] ''p1''
        (Some (ymd2ord 2026 3 1)) (Some (ymd2ord 2026 3 4)) example_today) = 200
   \<and> \<not> occupancy_rate
     (calculate_property_metrics [march_stay, march_stay_again] ''p1''
        (Some (ymd2ord 2026 3 1)) (Some (ymd2ord 2026 3 4)) example_today) \<le> 100"
  by code_simp

text \<open>
  Claim C5, amended. The occupancy rate is the nights counted over the length of the
  window in days (at least one day), as a percentage rounded to one decimal; it is never
  negative, and it is at most 100 whenever no two counted stays share a night. The average
  nightly rate is the revenue over the nights counted, rounded to cents, and zero when no
  night is counted. The rate returned is a whole number of tenths within a twentieth of
  the exact percentage, and the average a whole number of cents.
\<close>

theorem occupancy_and_rate:
  "occupancy_rate (calculate_property_metrics bookings pid (Some s) (Some e) today)
     = py_round (of_int (spec_nights bookings pid s e) / of_int (max (e - s) 1) * 100) 1
   \<and> 0 \<le> occupancy_rate (calculate_property_metrics bookings pid (Some s) (Some e) today)
   \<and> (disjoint_stays (map snd (counted_bookings bookings pid)) \<longrightarrow>
        occupancy_rate (calculate_property_metrics bookings pid (Some s) (Some e) today) \<le> 100)
   \<and> avg_nightly_rate (calculate_property_metrics bookings pid (Some s) (Some e) today)
     = (if spec_nights bookings pid s e = 0 then 0
        else py_round (spec_revenue bookings pid s e / of_int (spec_nights bookings pid s e)) 2)
   \<and> (\<exists>k. occupancy_rate (calculate_property_metrics bookings pid (Some s) (Some e) today)
          = of_int k / 10)
   \<and> \<bar>occupancy_rate (calculate_property_metrics bookings pid (Some s) (Some e) today)
        - of_int (spec_nights bookings pid s e) / of_int (max (e - s) 1) * 100\<bar> \<le> 1 / 20
   \<and> (\<exists>k. avg_nightly_rate (calculate_property_metrics bookings pid (Some s) (Some e) today)
          = of_int k / 100)"
proof -
  let ?n = "spec_nights bookings pid s e"
  let ?d = "max (e - s) 1"
  have d: "0 < ?d" by simp
  have n: "0 \<le> ?n" by (rule spec_nights_nonneg)
  have "0 \<le> (of_int ?n :: rat) / of_int ?d * 100"
    using n d by simp
  then have nonneg: "0 \<le> py_round (of_int ?n / of_int ?d * 100) 1"
    by (rule py_round_nonneg)
  have upper: "py_round (of_int ?n / of_int ?d * 100) 1 \<le> 100"
    if dis: "disjoint_stays (map snd (counted_bookings bookings pid))"
  proof -
    from disjoint_stays_bound [OF dis, of s e] have "?n \<le> max (e - s) 0"
      by (simp add: spec_nights_stays)
    then have "?n \<le> ?d" by simp
    then have le: "(of_int ?n :: rat) \<le> of_int ?d" by (simp only: of_int_le_iff)
    from d have dpos: "(0 :: rat) < of_int ?d" by (simp only: of_int_0_less_iff)
    from le dpos have q: "(of_int ?n :: rat) / of_int ?d \<le> 1"
      by (simp only: divide_le_eq_1_pos)
    have "(of_int ?n :: rat) / of_int ?d * 100 \<le> 1 * 100"
      by (rule mult_right_mono [OF q]) simp
    then have "(of_int ?n :: rat) / of_int ?d * 100 \<le> of_int 100" by simp
    from py_round_upper [OF this, of 1] show ?thesis by simp
  qed
  have tenths: "\<exists>k. py_round (of_int ?n / of_int ?d * 100) 1 = of_int k / 10"
    using py_round_whole [of "of_int ?n / of_int ?d * 100" 1] by simp
  have near: "\<bar>py_round (of_int ?n / of_int ?d * 100) 1 - of_int ?n / of_int ?d * 100\<bar> \<le> 1 / 20"
    using py_round_error [of "of_int ?n / of_int ?d * 100" 1] by simp
  have cents: "\<exists>k. (if ?n = 0 then py_round 0 2
        else py_round (spec_revenue bookings pid s e / of_int ?n) 2) = of_int k / 100"
    using py_round_whole [of 0 2] py_round_whole [of "spec_revenue bookings pid s e / of_int ?n" 2]
    by simp
  show ?thesis
    unfolding metrics_totals using nonneg upper tenths near cents by (simp add: py_round_zero)
qed

theorem occupancy_and_rate_witness:
  "occupancy_rate
     (calculate_property_metrics [march_stay] ''p1''
        (Some (ymd2ord 2026 3 1)) (Some (ymd2ord 2026 3 4)) example_today) \<le> 100
   \<and> occupancy_rate
     (calculate_property_metrics [march_stay] ''p1''
        (Some (ymd2ord 2026 3 1)) (Some (ymd2ord 2026 3 4)) example_today) = 100"
proof -
  have "disjoint_stays (map snd (counted_bookings [march_stay] ''p1''))"
    by code_simp
  moreover have "occupancy_rate
     (calculate_property_metrics [march_stay] ''p1''
        (Some (ymd2ord 2026 3 1)) (Some (ymd2ord 2026 3 4)) example_today) = 100"
    by code_simp
  ultimately show ?thesis
    using occupancy_and_rate [of "[march_stay]" "''p1''" "ymd2ord 2026 3 1" "ymd2ord 2026 3 4" example_today]
    by simp
qed

section \<open>Properties of the gap analysis\<close>






section \<open>Properties of the Schedule E summary\<close>

lemma py_round_cents: "py_round (of_int k / 100) 2 = of_int k / 100"
proof -
  have "(of_int k / 100 :: rat) * 10 ^ 2 = of_int k" by simp
  then show ?thesis
    by (simp only: py_round_def rhe_of_int) simp
qed

lemma add_to_line_rents: "line_3_rents (add_to_line l a sched) = line_3_rents sched"
  by (cases l) (simp_all add: add_to_line_def)

lemma expense_fold_rents:
  "line_3_rents (foldl (expense_step pid y) sched es) = line_3_rents sched"
  by (induction es arbitrary: sched) (simp_all add: expense_step_def add_to_line_rents)

lemma extend_fields:
  "line_3_rents (schedule_lines.extend sched \<lparr>total_expenses = t, net_income = n\<rparr>) = line_3_rents sched"
  "expense_total (schedule_lines.extend sched \<lparr>total_expenses = t, net_income = n\<rparr>) = expense_total sched"
  "total_expenses (schedule_lines.extend sched \<lparr>total_expenses = t, net_income = n\<rparr>) = t"
  "net_income (schedule_lines.extend sched \<lparr>total_expenses = t, net_income = n\<rparr>) = n"
  by (simp_all add: schedule_lines.extend_def expense_total_def schedule_lines.defs)

lemma schedule_e_rents:
  "\<exists>gross. line_3_rents (generate_schedule_e_summary p bs es y today) = py_round gross 2"
  by (simp add: generate_schedule_e_summary_def Let_def extend_fields expense_fold_rents) blast

lemma schedule_e_fields:
  "total_expenses (generate_schedule_e_summary p bs es y today)
     = py_round (expense_total (generate_schedule_e_summary p bs es y today)) 2"
  "net_income (generate_schedule_e_summary p bs es y today)
     = py_round (line_3_rents (generate_schedule_e_summary p bs es y today)
                 - expense_total (generate_schedule_e_summary p bs es y today)) 2"
  by (simp_all add: generate_schedule_e_summary_def Let_def extend_fields expense_fold_rents)

text \<open>
  Claim C2 says that \<open>net_income + total_expenses = line_3_rents\<close> exactly. The code
  rounds the expense total to cents for \<^verbatim>\<open>total_expenses\<close>, and rounds the rents
  less the unrounded expense total for \<^verbatim>\<open>net_income\<close>. With rents of 100.25 and one
  expense of 50.125, both are 50.12, and their sum is 100.24.
\<close>

theorem schedule_e_half_cent:
  "net_income (generate_schedule_e_summary example_property [paid_stay] [half_cent_expense]
       (Some 2026) example_today)
     + total_expenses (generate_schedule_e_summary example_property [paid_stay] [half_cent_expense]
       (Some 2026) example_today) = 10024 / 100
   \<and> line_3_rents (generate_schedule_e_summary example_property [paid_stay] [half_cent_expense]
       (Some 2026) example_today) = 10025 / 100
   \<and> net_income (generate_schedule_e_summary example_property [paid_stay] [half_cent_expense]
       (Some 2026) example_today)
     + total_expenses (generate_schedule_e_summary example_property [paid_stay] [half_cent_expense]
       (Some 2026) example_today)
     \<noteq> line_3_rents (generate_schedule_e_summary example_property [paid_stay] [half_cent_expense]
       (Some 2026) example_today)"
  by code_simp

text \<open>
  Claim C2, amended. \<^verbatim>\<open>total_expenses\<close> is the sum of the expense lines rounded to
  cents, and \<^verbatim>\<open>net_income\<close> is \<^verbatim>\<open>line_3_rents\<close> less that unrounded sum,
  rounded to cents. So \<open>net_income + total_expenses\<close> is within one cent of
  \<^verbatim>\<open>line_3_rents\<close>, and equals it whenever the sum of the expense lines is a whole
  number of cents. The three amounts are whole numbers of cents.
\<close>

theorem schedule_e_totals:
  "total_expenses (generate_schedule_e_summary p bs es y today)
     = py_round (expense_total (generate_schedule_e_summary p bs es y today)) 2
   \<and> net_income (generate_schedule_e_summary p bs es y today)
     = py_round (line_3_rents (generate_schedule_e_summary p bs es y today)
                 - expense_total (generate_schedule_e_summary p bs es y today)) 2
   \<and> \<bar>net_income (generate_schedule_e_summary p bs es y today)
        + total_expenses (generate_schedule_e_summary p bs es y today)
        - line_3_rents (generate_schedule_e_summary p bs es y today)\<bar> \<le> 1 / 100
   \<and> ((\<exists>k. expense_total (generate_schedule_e_summary p bs es y today) = of_int k / 100) \<longrightarrow>
        net_income (generate_schedule_e_summary p bs es y today)
          + total_expenses (generate_schedule_e_summary p bs es y today)
        = line_3_rents (generate_schedule_e_summary p bs es y today))
   \<and> (\<exists>k. total_expenses (generate_schedule_e_summary p bs es y today) = of_int k / 100)
   \<and> (\<exists>k. net_income (generate_schedule_e_summary p bs es y today) = of_int k / 100)
   \<and> (\<exists>k. line_3_rents (generate_schedule_e_summary p bs es y today) = of_int k / 100)"
proof -
  define L where "L = line_3_rents (generate_schedule_e_summary p bs es y today)"
  define E where "E = expense_total (generate_schedule_e_summary p bs es y today)"
  from schedule_e_rents [of p bs es y today]
  obtain gross where rents: "L = py_round gross 2"
    by (auto simp: L_def)
  from py_round_whole [of gross 2] rents obtain m where m: "L = of_int m / 100"
    by auto
  have near: "\<bar>py_round (L - E) 2 + py_round E 2 - L\<bar> \<le> 1 / 100"
  proof -
    have "\<bar>py_round (L - E) 2 - (L - E)\<bar> \<le> 1 / 200" "\<bar>py_round E 2 - E\<bar> \<le> 1 / 200"
      using py_round_error [of "L - E" 2] py_round_error [of E 2] by simp_all
    then show ?thesis by linarith
  qed
  have exact: "py_round (L - E) 2 + py_round E 2 = L" if "E = of_int k / 100" for k
  proof -
    have "L - E = of_int (m - k) / 100"
      by (simp add: m that diff_divide_distrib)
    then have "py_round (L - E) 2 = L - E"
      by (simp only: py_round_cents)
    moreover have "py_round E 2 = E"
      by (simp only: that py_round_cents)
    ultimately show ?thesis by simp
  qed
  have t: "total_expenses (generate_schedule_e_summary p bs es y today) = py_round E 2"
    and n: "net_income (generate_schedule_e_summary p bs es y today) = py_round (L - E) 2"
    unfolding L_def E_def by (rule schedule_e_fields)+
  have cents: "\<exists>k. py_round x 2 = of_int k / 100" for x
    using py_round_whole [of x 2] by simp
  show ?thesis
    unfolding t n L_def [symmetric] E_def [symmetric]
    using near exact cents [of E] cents [of "L - E"] m by blast
qed

theorem schedule_e_totals_witness:
  "net_income (generate_schedule_e_summary example_property [paid_stay] [whole_cent_expense]
       (Some 2026) example_today)
     + total_expenses (generate_schedule_e_summary example_property [paid_stay] [whole_cent_expense]
       (Some 2026) example_today)
   = line_3_rents (generate_schedule_e_summary example_property [paid_stay] [whole_cent_expense]
       (Some 2026) example_today)"
proof -
  have "expense_total (generate_schedule_e_summary example_property [paid_stay] [whole_cent_expense]
       (Some 2026) example_today) = of_int 8500 / 100"
    by code_simp
  then have "\<exists>k. expense_total (generate_schedule_e_summary example_property [paid_stay]
       [whole_cent_expense] (Some 2026) example_today) = of_int k / 100"
    by blast
  with schedule_e_totals [of example_property "[paid_stay]" "[whole_cent_expense]" "Some 2026"
         example_today]
  show ?thesis by blast
qed

section \<open>Properties of fetching a feed\<close>




section \<open>Cancelled bookings\<close>

lemma foldl_skip:
  assumes "\<And>s x. \<not> P x \<Longrightarrow> f s x = s"
  shows "foldl f s xs = foldl f s (filter P xs)"
  by (induction xs arbitrary: s) (simp_all add: assms)

lemma briefing_step_cancelled:
  "\<not> status b \<noteq> ''cancelled'' \<Longrightarrow> briefing_step properties today st b = st"
  by (simp add: briefing_step_def split: prod.splits)

lemma briefing_without_cancelled:
  "generate_daily_briefing properties bookings items today
     = generate_daily_briefing properties (filter (\<lambda>b. status b \<noteq> ''cancelled'') bookings) items today"
proof -
  have "foldl (briefing_step properties today) (empty_briefing today, []) bookings
      = foldl (briefing_step properties today) (empty_briefing today, [])
          (filter (\<lambda>b. status b \<noteq> ''cancelled'') bookings)"
    by (rule foldl_skip) (rule briefing_step_cancelled)
  then show ?thesis
    by (simp only: generate_daily_briefing_def)
qed

lemma filter_not_cancelled:
  "filter (\<lambda>b. property_id b = pid \<and> status b \<noteq> ''cancelled'')
     (filter (\<lambda>b. status b \<noteq> ''cancelled'') bookings)
   = filter (\<lambda>b. property_id b = pid \<and> status b \<noteq> ''cancelled'') bookings"
  by (induction bookings) simp_all

lemma filter_future_relevant:
  "filter (future_relevant pid today) (filter (\<lambda>b. status b \<noteq> ''cancelled'') bookings)
   = filter (future_relevant pid today) bookings"
  by (induction bookings) (simp_all add: future_relevant_def)

lemma metrics_without_cancelled:
  "calculate_property_metrics bookings pid start_opt end_opt today
     = calculate_property_metrics (filter (\<lambda>b. status b \<noteq> ''cancelled'') bookings) pid
         start_opt end_opt today"
  by (simp only: calculate_property_metrics_def filter_not_cancelled)

lemma gaps_without_cancelled:
  "get_gap_nights bookings pid lookahead_days today
     = get_gap_nights (filter (\<lambda>b. status b \<noteq> ''cancelled'') bookings) pid lookahead_days today"
  by (simp only: get_gap_nights_def filter_future_relevant)

lemma schedule_without_cancelled:
  "generate_schedule_e_summary p bookings es y today
     = generate_schedule_e_summary p (filter (\<lambda>b. status b \<noteq> ''cancelled'') bookings) es y today"
  by (simp only: generate_schedule_e_summary_def filter_not_cancelled)

text \<open>
  Claim C8. A cancelled booking contributes nothing: the daily briefing, the metrics of a
  property, the gaps of a property and the Schedule E summary computed from a list of
  bookings are those computed from the list without its cancelled bookings, and a
  cancelled booking put anywhere into a list changes none of them. The functions return
  their results and change no booking: the list they are given is the same value after
  the call.
\<close>

theorem cancelled_contributes_nothing:
  "generate_daily_briefing properties bookings items today
     = generate_daily_briefing properties (filter (\<lambda>b. status b \<noteq> ''cancelled'') bookings) items today
   \<and> calculate_property_metrics bookings pid start_opt end_opt today
     = calculate_property_metrics (filter (\<lambda>b. status b \<noteq> ''cancelled'') bookings) pid
         start_opt end_opt today
   \<and> get_gap_nights bookings pid lookahead_days today
     = get_gap_nights (filter (\<lambda>b. status b \<noteq> ''cancelled'') bookings) pid lookahead_days today
   \<and> generate_schedule_e_summary p bookings es y today
     = generate_schedule_e_summary p (filter (\<lambda>b. status b \<noteq> ''cancelled'') bookings) es y today
   \<and> (status b = ''cancelled'' \<longrightarrow>
        generate_daily_briefing properties (before @ b # after) items today
          = generate_daily_briefing properties (before @ after) items today
        \<and> calculate_property_metrics (before @ b # after) pid start_opt end_opt today
          = calculate_property_metrics (before @ after) pid start_opt end_opt today
        \<and> get_gap_nights (before @ b # after) pid lookahead_days today
          = get_gap_nights (before @ after) pid lookahead_days today)"
proof -
  have drop: "filter (\<lambda>b. status b \<noteq> ''cancelled'') (before @ b # after)
            = filter (\<lambda>b. status b \<noteq> ''cancelled'') (before @ after)"
    if "status b = ''cancelled''"
    using that by simp
  have "generate_daily_briefing properties (before @ b # after) items today
          = generate_daily_briefing properties (before @ after) items today"
    if "status b = ''cancelled''"
    using briefing_without_cancelled [of properties "before @ b # after" items today]
      briefing_without_cancelled [of properties "before @ after" items today] drop [OF that]
    by simp
  moreover have "calculate_property_metrics (before @ b # after) pid start_opt end_opt today
          = calculate_property_metrics (before @ after) pid start_opt end_opt today"
    if "status b = ''cancelled''"
    using metrics_without_cancelled [of "before @ b # after" pid start_opt end_opt today]
      metrics_without_cancelled [of "before @ after" pid start_opt end_opt today] drop [OF that]
    by simp
  moreover have "get_gap_nights (before @ b # after) pid lookahead_days today
          = get_gap_nights (before @ after) pid lookahead_days today"
    if "status b = ''cancelled''"
    using gaps_without_cancelled [of "before @ b # after" pid lookahead_days today]
      gaps_without_cancelled [of "before @ after" pid lookahead_days today] drop [OF that]
    by simp
  ultimately show ?thesis
    using briefing_without_cancelled [of properties bookings items today]
      metrics_without_cancelled [of bookings pid start_opt end_opt today]
      gaps_without_cancelled [of bookings pid lookahead_days today]
      schedule_without_cancelled [of p bookings es y today]
    by blast
qed

theorem cancelled_contributes_nothing_witness:
  "generate_daily_briefing [example_property] ([gap_first] @ cancelled_stay # [gap_second]) []
       (ymd2ord 2026 3 1)
     = generate_daily_briefing [example_property] ([gap_first] @ [gap_second]) [] (ymd2ord 2026 3 1)
   \<and> calculate_property_metrics ([gap_first] @ cancelled_stay # [gap_second]) ''p1'' None None
       (ymd2ord 2026 3 1)
     = calculate_property_metrics ([gap_first] @ [gap_second]) ''p1'' None None (ymd2ord 2026 3 1)
   \<and> get_gap_nights ([gap_first] @ cancelled_stay # [gap_second]) ''p1'' 9 (ymd2ord 2026 3 1)
     = get_gap_nights ([gap_first] @ [gap_second]) ''p1'' 9 (ymd2ord 2026 3 1)
   \<and> get_gap_nights ([gap_first] @ cancelled_stay # [gap_second]) ''p1'' 9 (ymd2ord 2026 3 1)
     = [\<lparr>gap_start = ''2026-03-03'', gap_end = ''2026-03-06'', gap_nights = 3\<rparr>,
        \<lparr>gap_start = ''2026-03-09'', gap_end = ''2026-03-10'', gap_nights = 1\<rparr>]"
proof -
  have "status cancelled_stay = ''cancelled''"
    by (simp add: cancelled_stay_def mk_booking_def)
  moreover have "get_gap_nights ([gap_first] @ cancelled_stay # [gap_second]) ''p1'' 9 (ymd2ord 2026 3 1)
     = [\<lparr>gap_start = ''2026-03-03'', gap_end = ''2026-03-06'', gap_nights = 3\<rparr>,
        \<lparr>gap_start = ''2026-03-09'', gap_end = ''2026-03-10'', gap_nights = 1\<rparr>]"
    by code_simp
  moreover note cancelled_contributes_nothing [where b = cancelled_stay and before = "[gap_first]"
         and after = "[gap_second]" and properties = "[example_property]" and items = "[]"
         and today = "ymd2ord 2026 3 1" and pid = "''p1''" and start_opt = None
         and end_opt = None and lookahead_days = 9]
  ultimately show ?thesis by blast
qed

end
